theory Spec2Isabelle
  imports Complex_Main "HOL-Library.Sublist"
begin

section \<open>JavaScript values\<close>

text \<open>
  Strings are byte strings: a JavaScript string is represented by its UTF-8 encoding, so
  a glyph outside ASCII is several characters. Optional fields (\<open>phone?: string\<close>, an
  unset environment variable) are \<open>string option\<close>, with \<open>None\<close> for \<open>undefined\<close>.
\<close>

definition truthy :: "string option \<Rightarrow> bool" where
  \<comment> \<open>the truthiness of an optional string: \<open>undefined\<close> and \<open>''\<close> are falsy\<close>
  "truthy v = (case v of None \<Rightarrow> False | Some s \<Rightarrow> s \<noteq> [])"

fun join :: "string \<Rightarrow> string list \<Rightarrow> string" where
  \<comment> \<open>\<open>Array.prototype.join\<close>\<close>
  "join sep [] = []"
| "join sep [x] = x"
| "join sep (x # y # ys) = x @ sep @ join sep (y # ys)"

definition digit_char :: "nat \<Rightarrow> char" where
  "digit_char d =
     (if d = 0 then CHR ''0'' else if d = 1 then CHR ''1'' else if d = 2 then CHR ''2''
      else if d = 3 then CHR ''3'' else if d = 4 then CHR ''4'' else if d = 5 then CHR ''5''
      else if d = 6 then CHR ''6'' else if d = 7 then CHR ''7'' else if d = 8 then CHR ''8''
      else CHR ''9'')"

fun show_nat :: "nat \<Rightarrow> string" where
  \<comment> \<open>a count as a template literal prints it: its decimal digits\<close>
  "show_nat n =
     (if n < 10 then [digit_char n] else show_nat (n div 10) @ [digit_char (n mod 10)])"

text \<open>
  A value that is used where a string is expected, without a check of its type.
  \<open>Text s\<close> is the string \<open>s\<close>. \<open>NonText p\<close> is a truthy value that is no string (a
  non-zero number, \<open>true\<close>, an array, an object); \<open>p\<close> is the string it converts to.
  \<open>Undefined\<close> is \<open>undefined\<close>.
\<close>

datatype js_value = Undefined | Text string | NonText string

fun render :: "js_value \<Rightarrow> string" where
  \<comment> \<open>\<open>${v}\<close> in a template literal, and \<open>v\<close> as a property key\<close>
  "render Undefined = ''undefined''"
| "render (Text s) = s"
| "render (NonText p) = p"

fun truthy_value :: "js_value \<Rightarrow> bool" where
  "truthy_value Undefined = False"
| "truthy_value (Text s) = (s \<noteq> [])"
| "truthy_value (NonText p) = True"

datatype js_error = JsError (name: string) (message: string)

definition error_to_string :: "js_error \<Rightarrow> string" where
  \<comment> \<open>\<open>String(err)\<close>, that is \<open>Error.prototype.toString\<close>\<close>
  "error_to_string e =
     (if name e = [] then message e
      else if message e = [] then name e
      else name e @ '': '' @ message e)"

definition reason_text :: "js_error \<Rightarrow> string" where
  \<comment> \<open>\<open>reason?.message || String(reason)\<close>\<close>
  "reason_text e = (if message e \<noteq> [] then message e else error_to_string e)"

subsection \<open>Property reads on plain objects\<close>

text \<open>
  \<open>obj[key]\<close> on an object literal, or on an object parsed from JSON, finds the
  object's own entry first and then the members every plain object inherits from
  \<open>Object.prototype\<close>. The inherited members are functions, hence truthy. (The
  accessor \<open>__proto__\<close>, which the Deno runtime removes from \<open>Object.prototype\<close>, is not
  listed.)
\<close>

definition object_prototype_keys :: "string list" where
  "object_prototype_keys =
     [''constructor'', ''hasOwnProperty'', ''isPrototypeOf'', ''propertyIsEnumerable'',
      ''toLocaleString'', ''toString'', ''valueOf'', ''__defineGetter__'',
      ''__defineSetter__'', ''__lookupGetter__'', ''__lookupSetter__'']"

datatype 'a property = Own 'a | Inherited string | Missing

definition get_property :: "(string \<rightharpoonup> 'a) \<Rightarrow> string \<Rightarrow> 'a property" where
  "get_property obj k =
     (case obj k of
        Some v \<Rightarrow> Own v
      | None \<Rightarrow> if k \<in> set object_prototype_keys then Inherited k else Missing)"

definition native_function_text :: "string \<Rightarrow> string" where
  \<comment> \<open>an inherited built-in function printed in a template literal\<close>
  "native_function_text k =
     ''function '' @ (if k = ''constructor'' then ''Object'' else k) @ ''() { [native code] }''"

section \<open>The delivery function \<open>send-emergency-alert\<close>\<close>

subsection \<open>Request data\<close>

text \<open>
  The severities are the string literals of the TypeScript type; \<open>severity_name\<close> gives
  the strings.
\<close>

datatype severity = Critical | Warning | Info

fun severity_name :: "severity \<Rightarrow> string" where
  "severity_name Critical = ''critical''"
| "severity_name Warning = ''warning''"
| "severity_name Info = ''info''"

record localized_text =
  title :: js_value
  description :: js_value

text \<open>
  The alert of an \<open>AlertRequest\<close>. \<open>radius\<close> is a number that the function only
  prints and echoes: it is kept in its printed form (\<open>Text ''25''\<close>), \<open>Undefined\<close> when
  absent. \<open>timestamp\<close> is the string handed to \<open>new Date\<close>.

  The request is parsed JSON and is not validated, and the message builders call the
  string method \<open>toUpperCase\<close> on the alert's \<open>zone\<close> and on a recipient's
  \<open>language\<close>. These two members are therefore values of any type: a string, which need
  not be one of the names the interface declares, or a value that is no string. A falsy
  value other than the empty string (\<open>null\<close>, \<open>0\<close>, \<open>false\<close>) is represented by
  \<open>Undefined\<close>: the handler tests \<open>zone\<close> and \<open>language\<close> for truthiness before any
  other use, and strict equality with a string is false for each of them. A value whose
  conversion to a string throws (an object with an own member \<open>toString\<close>) is outside this
  model. The other members are strings, as the interface declares them.
\<close>

record alert =
  alert_id :: string
  title :: string
  description :: string
  severity :: severity
  type :: string
  location :: string
  timestamp :: string
  source :: string
  zone :: js_value
  radius :: js_value
  languages :: "(string \<rightharpoonup> localized_text) option"

record recipient =
  phone :: "string option"
  email :: "string option"
  language :: js_value

subsection \<open>Glyphs of the message templates (UTF-8)\<close>

definition glyph_siren :: string where
  "glyph_siren = [CHR 0xF0, CHR 0x9F, CHR 0x9A, CHR 0xA8]"

definition glyph_warning :: string where
  "glyph_warning = [CHR 0xE2, CHR 0x9A, CHR 0xA0, CHR 0xEF, CHR 0xB8, CHR 0x8F]"

definition glyph_info :: string where
  "glyph_info = [CHR 0xE2, CHR 0x84, CHR 0xB9, CHR 0xEF, CHR 0xB8, CHR 0x8F]"

definition glyph_globe :: string where
  "glyph_globe = [CHR 0xF0, CHR 0x9F, CHR 0x8C, CHR 0x8D]"

definition glyph_wave :: string where
  "glyph_wave = [CHR 0xF0, CHR 0x9F, CHR 0x8C, CHR 0x8A]"

definition glyph_fire :: string where
  "glyph_fire = [CHR 0xF0, CHR 0x9F, CHR 0x94, CHR 0xA5]"

definition glyph_storm :: string where
  "glyph_storm = [CHR 0xE2, CHR 0x9B, CHR 0x88, CHR 0xEF, CHR 0xB8, CHR 0x8F]"

definition glyph_loudspeaker :: string where
  "glyph_loudspeaker = [CHR 0xF0, CHR 0x9F, CHR 0x93, CHR 0xA2]"

definition glyph_target :: string where
  "glyph_target = [CHR 0xF0, CHR 0x9F, CHR 0x8E, CHR 0xAF]"

definition glyph_pin :: string where
  "glyph_pin = [CHR 0xF0, CHR 0x9F, CHR 0x93, CHR 0x8D]"

definition glyph_map :: string where
  "glyph_map = [CHR 0xF0, CHR 0x9F, CHR 0x97, CHR 0xBA, CHR 0xEF, CHR 0xB8, CHR 0x8F]"

definition glyph_clock :: string where
  "glyph_clock = [CHR 0xF0, CHR 0x9F, CHR 0x95, CHR 0x92]"

definition glyph_satellite :: string where
  "glyph_satellite = [CHR 0xF0, CHR 0x9F, CHR 0x93, CHR 0xA1]"

definition glyph_clipboard :: string where
  "glyph_clipboard = [CHR 0xF0, CHR 0x9F, CHR 0x93, CHR 0x8B]"

definition glyph_sos :: string where
  "glyph_sos = [CHR 0xF0, CHR 0x9F, CHR 0x86, CHR 0x98]"

subsection \<open>Localized content\<close>

text \<open>
  Both message builders start with the same expression:
  \<^verbatim>\<open>(alert.languages && alert.languages[language]) ? alert.languages[language]
     : { title: alert.title, description: alert.description }\<close>.
  An inherited member is truthy and has neither a \<open>title\<close> nor a \<open>description\<close>.
  The second argument of \<open>localized\<close> is the property key, the language converted to a
  string.
\<close>

definition localized :: "alert \<Rightarrow> string \<Rightarrow> localized_text" where
  "localized a key =
     (let base = \<lparr>localized_text.title = Text (alert.title a),
                  localized_text.description = Text (alert.description a)\<rparr>
      in case languages a of
           None \<Rightarrow> base
         | Some entries \<Rightarrow>
             (case get_property entries key of
                Own l \<Rightarrow> l
              | Inherited k \<Rightarrow>
                  \<lparr>localized_text.title = Undefined, localized_text.description = Undefined\<rparr>
              | Missing \<Rightarrow> base))"

subsection \<open>The host of the function\<close>

text \<open>
  What the function receives from outside: the provider's answer to each request, the
  host's Base64 encoder, date formatting and case mapping, and the order in which the
  started delivery operations settle.
  A request is kept by its parts: \<open>To\<close>, \<open>From\<close> and \<open>Body\<close> are the parameters of its
  form-encoded body.
\<close>

record fetch_request =
  url :: string
  request_method :: string
  authorization :: string
  content_type :: string
  To :: string
  From :: string
  Body :: string

record http_response =
  status :: nat
  statusText :: string
  body_text :: "string option"

definition ok :: "http_response \<Rightarrow> bool" where
  \<comment> \<open>\<open>response.ok\<close>: a status in the range 200..299\<close>
  "ok r = (200 \<le> http_response.status r \<and> http_response.status r \<le> 299)"

datatype fetch_result = NetworkFailure js_error | Responded http_response

record runtime =
  fetch :: "nat \<Rightarrow> fetch_request \<Rightarrow> fetch_result"
  btoa :: "string \<Rightarrow> js_error + string"
  toLocaleString :: "string \<Rightarrow> string"
  toUpperCase :: "string \<Rightarrow> string"
  completion :: "nat list"

text \<open>
  \<open>fetch rt i req\<close> is the answer to the request \<open>req\<close> of the delivery operation
  with index \<open>i\<close>; \<open>body_text\<close> is \<open>None\<close> when reading the response body fails.
  \<open>btoa rt s\<close> is the Base64 form of \<open>s\<close>, or the error thrown for a string with a
  character outside Latin-1. \<open>toLocaleString rt t\<close> is \<open>new Date(t).toLocaleString()\<close>.
  \<open>toUpperCase rt s\<close> is \<open>s.toUpperCase()\<close>, the engine's case mapping of the string \<open>s\<close>.
  \<open>completion rt\<close> lists the indices of the delivery operations in the order in which
  they settle.
\<close>

subsection \<open>Message builders\<close>

definition call_toUpperCase :: "runtime \<Rightarrow> string \<Rightarrow> js_value \<Rightarrow> js_error + string" where
  \<comment> \<open>\<open>expr.toUpperCase()\<close> for a value \<open>v\<close> of the expression \<open>expr\<close>: only a string has
      the method, and the call on another value throws a \<open>TypeError\<close>\<close>
  \<open>call_toUpperCase rt expr v =
     (case v of
        Text s \<Rightarrow> Inr (toUpperCase rt s)
      | NonText p \<Rightarrow> Inl (JsError ''TypeError'' (expr @ ''.toUpperCase is not a function''))
      | Undefined \<Rightarrow>
          Inl (JsError ''TypeError''
                 ''Cannot read properties of undefined (reading \'toUpperCase\')''))\<close>

fun severityEmoji :: "severity \<Rightarrow> string" where
  "severityEmoji Critical = glyph_siren"
| "severityEmoji Warning = glyph_warning"
| "severityEmoji Info = glyph_info"

definition typeEmoji :: "string \<rightharpoonup> string" where
  "typeEmoji =
     [''earthquake'' \<mapsto> glyph_globe, ''flood'' \<mapsto> glyph_wave, ''fire'' \<mapsto> glyph_fire,
      ''storm'' \<mapsto> glyph_storm, ''other'' \<mapsto> glyph_loudspeaker]"

definition zonePrefix :: "string \<rightharpoonup> string" where
  "zonePrefix =
     [''immediate'' \<mapsto> glyph_target @ '' IMMEDIATE AREA'',
      ''nearby'' \<mapsto> glyph_pin @ '' NEARBY AREA'',
      ''regional'' \<mapsto> glyph_map @ '' REGIONAL ALERT'']"

definition print_property :: "string property \<Rightarrow> string" where
  \<comment> \<open>\<open>${table[key]}\<close> for a table of strings\<close>
  "print_property p =
     (case p of Own s \<Rightarrow> s | Inherited k \<Rightarrow> native_function_text k | Missing \<Rightarrow> ''undefined'')"

definition createEnhancedSMSMessage :: "runtime \<Rightarrow> alert \<Rightarrow> js_value \<Rightarrow> string" where
  \<open>createEnhancedSMSMessage rt a lang =
     (let loc = localized a (render lang);
          zoneInfo = (if truthy_value (alert.zone a)
                      then print_property (get_property zonePrefix (render (alert.zone a)))
                           @ '' ('' @ render (alert.radius a) @ ''km)''
                      else ''DIRECT ALERT'')
      in severityEmoji (alert.severity a)
         @ '' EMERGENCY ALERT\<newline>''
         @ zoneInfo
         @ ''\<newline>''
         @ ''\<newline>''
         @ print_property (get_property typeEmoji (alert.type a))
         @ '' ''
         @ render (localized_text.title loc)
         @ ''\<newline>''
         @ ''\<newline>''
         @ glyph_pin
         @ '' Location: ''
         @ location a
         @ ''\<newline>''
         @ glyph_clock
         @ '' Time: ''
         @ toLocaleString rt (timestamp a)
         @ ''\<newline>''
         @ glyph_satellite
         @ '' Source: ''
         @ source a
         @ ''\<newline>''
         @ ''\<newline>''
         @ render (localized_text.description loc)
         @ ''\<newline>''
         @ ''\<newline>''
         @ (if alert.zone a = Text ''immediate'' then glyph_siren
             @ '' TAKE IMMEDIATE ACTION''
            else if alert.zone a = Text ''nearby'' then glyph_warning
             @ '' MONITOR SITUATION''
            else glyph_loudspeaker
             @ '' STAY INFORMED'')
         @ ''\<newline>''
         @ ''\<newline>''
         @ ''Reply STOP to unsubscribe.'')\<close>

fun severityColor :: "severity \<Rightarrow> string" where
  "severityColor Critical = ''#dc2626''"
| "severityColor Warning = ''#f59e0b''"
| "severityColor Info = ''#3b82f6''"

definition zoneColors :: "string \<rightharpoonup> string" where
  "zoneColors = [''immediate'' \<mapsto> ''#dc2626'', ''nearby'' \<mapsto> ''#f59e0b'', ''regional'' \<mapsto> ''#3b82f6'']"

definition zoneLabels :: "string \<rightharpoonup> string" where
  "zoneLabels =
     [''immediate'' \<mapsto> glyph_target @ '' IMMEDIATE AREA ALERT'',
      ''nearby'' \<mapsto> glyph_pin @ '' NEARBY AREA WARNING'',
      ''regional'' \<mapsto> glyph_map @ '' REGIONAL INFORMATION'']"

record email_message =
  subject :: string
  html :: string

definition email_html ::
  "runtime \<Rightarrow> alert \<Rightarrow> localized_text \<Rightarrow> string \<Rightarrow> string \<Rightarrow> string \<Rightarrow> string \<Rightarrow> string" where
  \<comment> \<open>the \<open>html\<close> template of \<open>createEnhancedEmailMessage\<close>, line by line; \<open>zoneUpper\<close> and
      \<open>languageUpper\<close> are the results of \<open>alert.zone.toUpperCase()\<close> and
      \<open>language.toUpperCase()\<close>\<close>
  \<open>email_html rt a loc zoneInfo zoneColor zoneUpper languageUpper =
     (''\<newline>''
      @ ''      <!DOCTYPE html>\<newline>''
      @ ''      <html>\<newline>''
      @ ''        <head>\<newline>''
      @ ''          <meta charset="utf-8">\<newline>''
      @ ''          <meta name="viewport" content="width=device-width, initial-scale=1.0">\<newline>''
      @ ''          <title>Emergency Alert</title>\<newline>''
      @ ''        </head>\<newline>''
      @ ''        <body style="font-family: \'Segoe UI\', Tahoma, Geneva, Verdana, sans-serif; line-height: 1.6; color: #333; margin: 0; padding: 0; background:''
      @ '' linear-gradient(135deg, #f8fafc 0%, #e2e8f0 100%);">\<newline>''
      @ ''          <div style="max-width: 600px; margin: 0 auto; background: white; box-shadow: 0 20px 40px rgba(0,0,0,0.1);">\<newline>''
      @ ''            <!-- Header -->\<newline>''
      @ ''            <div style="background: ''
      @ zoneColor
      @ ''; color: white; padding: 30px 20px; text-align: center; position: relative; overflow: hidden;">\<newline>''
      @ ''              <div style="position: absolute; top: 0; left: 0; right: 0; height: 4px; background: linear-gradient(90deg, rgba(255,255,255,0.3) 0%, rgb''
      @ ''a(255,255,255,0.7) 50%, rgba(255,255,255,0.3) 100%);"></div>\<newline>''
      @ ''              <h1 style="margin: 0; font-size: 28px; font-weight: bold; text-shadow: 0 2px 4px rgba(0,0,0,0.3);">''
      @ glyph_siren
      @ '' EMERGENCY ALERT</h1>\<newline>''
      @ ''              <div style="margin: 10px 0; padding: 8px 16px; background: rgba(255,255,255,0.2); border-radius: 20px; display: inline-block; font-size:''
      @ '' 14px; font-weight: bold;">\<newline>''
      @ ''                ''
      @ zoneInfo
      @ ''\<newline>''
      @ ''              </div>\<newline>''
      @ ''              <p style="margin: 10px 0 0 0; font-size: 20px; font-weight: bold; text-shadow: 0 1px 2px rgba(0,0,0,0.3);">''
      @ render (localized_text.title loc)
      @ ''</p>\<newline>''
      @ ''            </div>\<newline>''
      @ ''            \<newline>''
      @ ''            <!-- Alert Details -->\<newline>''
      @ ''            <div style="padding: 30px 20px;">\<newline>''
      @ ''              <div style="background: linear-gradient(135deg, #f8fafc 0%, #e2e8f0 100%); padding: 25px; border-radius: 12px; margin-bottom: 25px; bord''
      @ ''er-left: 5px solid ''
      @ zoneColor
      @ '';">\<newline>''
      @ ''                <div style="display: grid; gap: 15px;">\<newline>''
      @ ''                  <div style="display: flex; align-items: center; gap: 10px;">\<newline>''
      @ ''                    <span style="font-size: 18px;">''
      @ glyph_pin
      @ ''</span>\<newline>''
      @ ''                    <div>\<newline>''
      @ ''                      <strong style="color: #1f2937;">Location:</strong>\<newline>''
      @ ''                      <span style="margin-left: 8px; color: #4b5563;">''
      @ location a
      @ ''</span>\<newline>''
      @ ''                    </div>\<newline>''
      @ ''                  </div>\<newline>''
      @ ''                  \<newline>''
      @ ''                  <div style="display: flex; align-items: center; gap: 10px;">\<newline>''
      @ ''                    <span style="font-size: 18px;">''
      @ glyph_clock
      @ ''</span>\<newline>''
      @ ''                    <div>\<newline>''
      @ ''                      <strong style="color: #1f2937;">Time:</strong>\<newline>''
      @ ''                      <span style="margin-left: 8px; color: #4b5563;">''
      @ toLocaleString rt (timestamp a)
      @ ''</span>\<newline>''
      @ ''                    </div>\<newline>''
      @ ''                  </div>\<newline>''
      @ ''                  \<newline>''
      @ ''                  <div style="display: flex; align-items: center; gap: 10px;">\<newline>''
      @ ''                    <span style="font-size: 18px;">''
      @ glyph_warning
      @ ''</span>\<newline>''
      @ ''                    <div>\<newline>''
      @ ''                      <strong style="color: #1f2937;">Severity:</strong>\<newline>''
      @ ''                      <span style="margin-left: 8px; padding: 4px 12px; background: ''
      @ severityColor (alert.severity a)
      @ ''; color: white; border-radius: 20px; font-size: 12px; font-weight: bold; text-transform: uppercase;">''
      @ severity_name (alert.severity a)
      @ ''</span>\<newline>''
      @ ''                    </div>\<newline>''
      @ ''                  </div>\<newline>''
      @ ''                  \<newline>''
      @ ''                  <div style="display: flex; align-items: center; gap: 10px;">\<newline>''
      @ ''                    <span style="font-size: 18px;">''
      @ glyph_satellite
      @ ''</span>\<newline>''
      @ ''                    <div>\<newline>''
      @ ''                      <strong style="color: #1f2937;">Source:</strong>\<newline>''
      @ ''                      <span style="margin-left: 8px; color: #4b5563;">''
      @ source a
      @ ''</span>\<newline>''
      @ ''                    </div>\<newline>''
      @ ''                  </div>\<newline>''
      @ ''\<newline>''
      @ ''                  ''
      @ (if \<not> truthy_value (alert.zone a) then []
         else
             ''\<newline>''
             @ ''                  <div style="display: flex; align-items: center; gap: 10px;">\<newline>''
             @ ''                    <span style="font-size: 18px;">''
             @ glyph_target
             @ ''</span>\<newline>''
             @ ''                    <div>\<newline>''
             @ ''                      <strong style="color: #1f2937;">Alert Zone:</strong>\<newline>''
             @ ''                      <span style="margin-left: 8px; padding: 4px 12px; background: ''
             @ zoneColor
             @ ''; color: white; border-radius: 20px; font-size: 12px; font-weight: bold;">''
             @ zoneUpper
             @ '' (''
             @ render (alert.radius a)
             @ ''km radius)</span>\<newline>''
             @ ''                    </div>\<newline>''
             @ ''                  </div>\<newline>''
             @ ''                  '')
      @ ''\<newline>''
      @ ''                </div>\<newline>''
      @ ''              </div>\<newline>''
      @ ''              \<newline>''
      @ ''              <!-- Alert Description -->\<newline>''
      @ ''              <div style="margin-bottom: 25px;">\<newline>''
      @ ''                <h3 style="color: #1f2937; margin-bottom: 15px; font-size: 18px;">''
      @ glyph_clipboard
      @ '' Alert Details:</h3>\<newline>''
      @ ''                <div style="background: white; padding: 20px; border-radius: 8px; border: 1px solid #e5e7eb; line-height: 1.7;">\<newline>''
      @ ''                  ''
      @ render (localized_text.description loc)
      @ ''\<newline>''
      @ ''                </div>\<newline>''
      @ ''              </div>\<newline>''
      @ ''              \<newline>''
      @ ''              <!-- Action Required -->\<newline>''
      @ ''              <div style="background: ''
      @ (if alert.zone a = Text ''immediate'' then ''#fef2f2''
         else if alert.zone a = Text ''nearby'' then ''#fffbeb''
         else ''#eff6ff'')
      @ ''; border: 2px solid ''
      @ zoneColor
      @ ''; padding: 20px; border-radius: 12px; margin-bottom: 25px;">\<newline>''
      @ ''                <h4 style="margin: 0 0 10px 0; color: ''
      @ zoneColor
      @ ''; font-size: 16px; font-weight: bold;">\<newline>''
      @ ''                  ''
      @ (if alert.zone a = Text ''immediate'' then glyph_siren
          @ '' IMMEDIATE ACTION REQUIRED''
         else if alert.zone a = Text ''nearby'' then glyph_warning
          @ '' MONITOR SITUATION CLOSELY''
         else glyph_loudspeaker
          @ '' STAY INFORMED'')
      @ ''\<newline>''
      @ ''                </h4>\<newline>''
      @ ''                <p style="margin: 0; color: #374151; font-weight: 500;">\<newline>''
      @ ''                  ''
      @ (if alert.zone a = Text ''immediate'' then ''You are in the immediate impact area. Follow emergency procedures and local authority guidance immediately.''
         else if alert.zone a = Text ''nearby'' then ''Emergency situation detected near your location. Stay alert and be prepared to take action if conditions change.''
         else ''Emergency situation in your region. Stay informed through official channels and follow local authority guidance.'')
      @ ''\<newline>''
      @ ''                </p>\<newline>''
      @ ''              </div>\<newline>''
      @ ''\<newline>''
      @ ''              <!-- Emergency Contacts -->\<newline>''
      @ ''              <div style="background: #f9fafb; padding: 20px; border-radius: 8px; margin-bottom: 20px;">\<newline>''
      @ ''                <h4 style="margin: 0 0 15px 0; color: #1f2937; font-size: 16px;">''
      @ glyph_sos
      @ '' Emergency Contacts:</h4>\<newline>''
      @ ''                <div style="display: grid; gap: 8px; font-size: 14px;">\<newline>''
      @ ''                  <div><strong>National Emergency:</strong> <a href="tel:112" style="color: #dc2626; text-decoration: none;">112</a></div>\<newline>''
      @ ''                  <div><strong>Police:</strong> <a href="tel:100" style="color: #dc2626; text-decoration: none;">100</a></div>\<newline>''
      @ ''                  <div><strong>Fire Brigade:</strong> <a href="tel:101" style="color: #dc2626; text-decoration: none;">101</a></div>\<newline>''
      @ ''                  <div><strong>Ambulance:</strong> <a href="tel:108" style="color: #dc2626; text-decoration: none;">108</a></div>\<newline>''
      @ ''                </div>\<newline>''
      @ ''              </div>\<newline>''
      @ ''            </div>\<newline>''
      @ ''            \<newline>''
      @ ''            <!-- Footer -->\<newline>''
      @ ''            <div style="background: #f3f4f6; padding: 20px; text-align: center; border-top: 1px solid #e5e7eb;">\<newline>''
      @ ''              <div style="font-size: 14px; color: #6b7280; margin-bottom: 10px;">\<newline>''
      @ ''                <strong>Emergency Alert System</strong> | Real-time disaster monitoring for India\<newline>''
      @ ''              </div>\<newline>''
      @ ''              <div style="font-size: 12px; color: #9ca3af;">\<newline>''
      @ ''                This is an automated emergency notification from verified government sources.<br>\<newline>''
      @ ''                Language: ''
      @ languageUpper
      @ '' | Alert ID: ''
      @ alert_id a
      @ ''\<newline>''
      @ ''              </div>\<newline>''
      @ ''            </div>\<newline>''
      @ ''          </div>\<newline>''
      @ ''        </body>\<newline>''
      @ ''      </html>\<newline>''
      @ ''    '')\<close>

text \<open>
  The builder of the email message evaluates its two templates in order, the subject
  first. Two expressions of the \<open>html\<close> template can throw: \<open>alert.zone.toUpperCase()\<close>,
  evaluated when the zone is truthy, and after it \<open>language.toUpperCase()\<close>. The error
  leaves the builder; \<open>Inl\<close> is the error thrown.
\<close>

definition createEnhancedEmailMessage :: "runtime \<Rightarrow> alert \<Rightarrow> js_value \<Rightarrow> js_error + email_message" where
  "createEnhancedEmailMessage rt a lang =
     (let loc = localized a (render lang);
          zoneInfo = (if truthy_value (alert.zone a)
                      then print_property (get_property zoneLabels (render (alert.zone a)))
                      else ''DIRECT EMERGENCY ALERT'');
          zoneColor = (if truthy_value (alert.zone a)
                       then print_property (get_property zoneColors (render (alert.zone a)))
                       else severityColor (alert.severity a));
          subjectText =
            (if alert.zone a = Text ''immediate'' then glyph_siren @ '' IMMEDIATE''
             else if alert.zone a = Text ''nearby'' then glyph_warning @ '' NEARBY''
             else glyph_loudspeaker @ '' REGIONAL'')
            @ '' ALERT: '' @ render (localized_text.title loc)
      in case (if truthy_value (alert.zone a)
               then call_toUpperCase rt ''alert.zone'' (alert.zone a) else Inr []) of
           Inl err \<Rightarrow> Inl err
         | Inr zoneUpper \<Rightarrow>
             (case call_toUpperCase rt ''language'' lang of
                Inl err \<Rightarrow> Inl err
              | Inr languageUpper \<Rightarrow>
                  Inr \<lparr>subject = subjectText,
                       html = email_html rt a loc zoneInfo zoneColor zoneUpper languageUpper\<rparr>))"

subsection \<open>Delivery operations\<close>

datatype channel = SMS | Email

fun channel_name :: "channel \<Rightarrow> string" where
  "channel_name SMS = ''SMS''"
| "channel_name Email = ''Email''"

record delivery_result =
  type :: string
  recipient :: string
  status :: string
  language :: js_value

datatype settled = Fulfilled delivery_result | Rejected js_error

text \<open>
  A started delivery operation (the promise that \<open>sendEnhancedSMS\<close> or
  \<open>sendEnhancedEmail\<close> returns): the network requests it issues and how it settles.
  An error thrown inside an \<open>async\<close> function rejects its promise.
\<close>

record promise =
  issued :: "fetch_request list"
  outcome :: settled

definition sendEnhancedSMS ::
  "runtime \<Rightarrow> nat \<Rightarrow> string \<Rightarrow> alert \<Rightarrow> js_value \<Rightarrow> string \<Rightarrow> string \<Rightarrow> string \<Rightarrow> promise" where
  "sendEnhancedSMS rt i phoneNumber a lang accountSid authToken fromNumber =
     (let smsBody = createEnhancedSMSMessage rt a lang;
          url = ''https://api.twilio.com/2010-04-01/Accounts/'' @ accountSid @ ''/Messages.json''
      in case btoa rt (accountSid @ '':'' @ authToken) of
           Inl err \<Rightarrow> \<lparr>issued = [], outcome = Rejected err\<rparr>
         | Inr credentials \<Rightarrow>
             (let request = \<lparr>url = url, request_method = ''POST'',
                             authorization = ''Basic '' @ credentials,
                             content_type = ''application/x-www-form-urlencoded'',
                             To = phoneNumber, From = fromNumber, Body = smsBody\<rparr>
              in \<lparr>issued = [request],
                  outcome =
                    (case fetch rt i request of
                       NetworkFailure err \<Rightarrow> Rejected err
                     | Responded resp \<Rightarrow>
                         if \<not> ok resp then
                           (let details = (case body_text resp of
                                             Some t \<Rightarrow> t | None \<Rightarrow> statusText resp)
                            in Rejected (JsError ''Error''
                                 (''SMS delivery failed: '' @ show_nat (http_response.status resp)
                                  @ '' '' @ details)))
                         else Fulfilled \<lparr>delivery_result.type = ''SMS'',
                                          delivery_result.recipient = phoneNumber,
                                          delivery_result.status = ''delivered'',
                                          delivery_result.language = lang\<rparr>)\<rparr>))"

text \<open>
  \<open>sendEnhancedEmail\<close> builds the message before its \<open>try\<close> block: an error that the
  builder throws rejects the promise with that error. In the \<open>try\<close> block the function
  logs the message and waits for a timer; nothing there can throw, and no request is
  issued. (The wait is not part of the model.)
\<close>

definition sendEnhancedEmail ::
  "runtime \<Rightarrow> string \<Rightarrow> alert \<Rightarrow> js_value \<Rightarrow> string \<Rightarrow> string \<Rightarrow> string \<Rightarrow> string \<Rightarrow> string
    \<Rightarrow> promise" where
  "sendEnhancedEmail rt emailAddress a lang smtpHost smtpUser smtpPass fromEmail port =
     (case createEnhancedEmailMessage rt a lang of
        Inl err \<Rightarrow> \<lparr>issued = [], outcome = Rejected err\<rparr>
      | Inr emailContent \<Rightarrow>
          \<lparr>issued = [],
           outcome = Fulfilled \<lparr>delivery_result.type = ''Email'',
                                delivery_result.recipient = emailAddress,
                                delivery_result.status = ''delivered'',
                                delivery_result.language = lang\<rparr>\<rparr>)"

subsection \<open>\<open>Promise.allSettled\<close>\<close>

text \<open>
  Each operation, when it settles, writes its result into the slot of its own index;
  the combined promise resolves with the slots once every one is filled. \<open>None\<close>: some
  operation never settles, and the combined promise stays pending.
\<close>

definition allSettled :: "nat list \<Rightarrow> 'a list \<Rightarrow> 'a list option" where
  "allSettled order outcomes =
     (let slots = fold (\<lambda>i s. if i < length outcomes then s[i := Some (outcomes ! i)] else s)
                    order (replicate (length outcomes) None)
      in if list_all (\<lambda>x. x \<noteq> None) slots then Some (map the slots) else None)"

subsection \<open>The handler\<close>

record env =
  TWILIO_ACCOUNT_SID :: "string option"
  TWILIO_AUTH_TOKEN :: "string option"
  TWILIO_PHONE_NUMBER :: "string option"
  SMTP_HOST :: "string option"
  SMTP_USER :: "string option"
  SMTP_PASS :: "string option"
  FROM_EMAIL :: "string option"
  SMTP_PORT :: "string option"

definition missingTwilio :: "env \<Rightarrow> string list" where
  "missingTwilio e =
     (if \<not> truthy (TWILIO_ACCOUNT_SID e) then [''TWILIO_ACCOUNT_SID''] else [])
     @ (if \<not> truthy (TWILIO_AUTH_TOKEN e) then [''TWILIO_AUTH_TOKEN''] else [])
     @ (if \<not> truthy (TWILIO_PHONE_NUMBER e) then [''TWILIO_PHONE_NUMBER''] else [])"

definition smsEnabled :: "env \<Rightarrow> bool" where
  "smsEnabled e = (length (missingTwilio e) = 0)"

definition missingSmtp :: "env \<Rightarrow> string list" where
  "missingSmtp e =
     (if \<not> truthy (SMTP_HOST e) then [''SMTP_HOST''] else [])
     @ (if \<not> truthy (FROM_EMAIL e) then [''FROM_EMAIL''] else [])
     @ (if \<not> truthy (SMTP_USER e) then [''SMTP_USER''] else [])
     @ (if \<not> truthy (SMTP_PASS e) then [''SMTP_PASS''] else [])"

definition emailEnabled :: "env \<Rightarrow> bool" where
  "emailEnabled e = (length (missingSmtp e) = 0)"

definition smtpPort :: "env \<Rightarrow> string" where
  \<comment> \<open>\<open>smtpPortRaw || '587'\<close>; the number made of it is handed on and never read\<close>
  "smtpPort e = (if truthy (SMTP_PORT e) then the (SMTP_PORT e) else ''587'')"

record delivery_meta =
  channel :: channel
  recipient :: string
  language :: js_value

text \<open>
  An entry of the report's \<open>errors\<close>. An early error has no \<open>language\<close>; a delivery
  error is \<open>{...deliveryMeta[i], reason}\<close> and has one.
\<close>

record error_entry =
  channel :: channel
  recipient :: string
  language :: "js_value option"
  reason :: string

record loop_state =
  deliveryTasks :: "promise list"
  deliveryMeta :: "delivery_meta list"
  earlyErrors :: "error_entry list"

definition process_recipient :: "runtime \<Rightarrow> env \<Rightarrow> alert \<Rightarrow> loop_state \<Rightarrow> recipient \<Rightarrow> loop_state" where
  \<comment> \<open>the body of \<open>for (const recipient of recipients)\<close>\<close>
  "process_recipient rt e a st r =
     (let lang = (if truthy_value (recipient.language r) then recipient.language r else Text ''en'');
          st1 =
            (if truthy (phone r) \<and> smsEnabled e then
               st\<lparr>deliveryTasks := deliveryTasks st
                     @ [sendEnhancedSMS rt (length (deliveryTasks st)) (the (phone r)) a lang
                          (the (TWILIO_ACCOUNT_SID e)) (the (TWILIO_AUTH_TOKEN e))
                          (the (TWILIO_PHONE_NUMBER e))],
                  deliveryMeta := deliveryMeta st
                     @ [\<lparr>delivery_meta.channel = SMS, delivery_meta.recipient = the (phone r),
                         delivery_meta.language = lang\<rparr>]\<rparr>
             else if truthy (phone r) \<and> \<not> smsEnabled e then
               st\<lparr>earlyErrors := earlyErrors st
                     @ [\<lparr>error_entry.channel = SMS, error_entry.recipient = the (phone r),
                         error_entry.language = None,
                         reason = ''SMS service not configured: '' @ join '', '' (missingTwilio e)\<rparr>]\<rparr>
             else st);
          st2 =
            (if truthy (email r) \<and> emailEnabled e then
               st1\<lparr>deliveryTasks := deliveryTasks st1
                     @ [sendEnhancedEmail rt (the (email r)) a lang
                          (the (SMTP_HOST e)) (the (SMTP_USER e)) (the (SMTP_PASS e))
                          (the (FROM_EMAIL e)) (smtpPort e)],
                   deliveryMeta := deliveryMeta st1
                     @ [\<lparr>delivery_meta.channel = Email, delivery_meta.recipient = the (email r),
                         delivery_meta.language = lang\<rparr>]\<rparr>
             else if truthy (email r) \<and> \<not> emailEnabled e then
               st1\<lparr>earlyErrors := earlyErrors st1
                     @ [\<lparr>error_entry.channel = Email, error_entry.recipient = the (email r),
                         error_entry.language = None,
                         reason = ''Email service not configured: '' @ join '', '' (missingSmtp e)\<rparr>]\<rparr>
             else st1)
      in st2)"

definition process_recipients :: "runtime \<Rightarrow> env \<Rightarrow> alert \<Rightarrow> recipient list \<Rightarrow> loop_state" where
  \<comment> \<open>the loop, started with the three arrays empty\<close>
  "process_recipients rt e a rs =
     foldl (process_recipient rt e a)
       \<lparr>deliveryTasks = [], deliveryMeta = [], earlyErrors = []\<rparr> rs"

definition deliveryErrors :: "settled list \<Rightarrow> delivery_meta list \<Rightarrow> error_entry list" where
  \<comment> \<open>\<open>deliveryResults.map((result, i) => rejected ? {...deliveryMeta[i], reason} : null)
       .filter(Boolean)\<close>; the two lists have one length\<close>
  "deliveryErrors results meta =
     map the (filter (\<lambda>x. x \<noteq> None)
       (map (\<lambda>(result, m).
               case result of
                 Rejected err \<Rightarrow>
                   Some \<lparr>error_entry.channel = delivery_meta.channel m,
                         error_entry.recipient = delivery_meta.recipient m,
                         error_entry.language = Some (delivery_meta.language m),
                         reason = reason_text err\<rparr>
               | Fulfilled v \<Rightarrow> None)
          (zip results meta)))"

definition is_fulfilled :: "settled \<Rightarrow> bool" where
  "is_fulfilled r = (case r of Fulfilled v \<Rightarrow> True | Rejected err \<Rightarrow> False)"

record config =
  smsEnabled_flag :: bool
  emailEnabled_flag :: bool

record report =
  success :: bool
  sent :: nat
  failed :: nat
  errors :: "error_entry list"
  zone :: js_value
  radius :: js_value
  config :: config
  message :: string

record failure =
  failure_success :: bool
  error :: string
  failure_sent :: nat
  failure_failed :: nat

text \<open>
  The three responses: the answer to a CORS preflight (no body), the report with status
  200, and the failure body with status 500.
\<close>

datatype response = Preflight | Response200 report | Response500 failure


text \<open>
  A request body either makes the \<open>try\<close> block throw before the loop (it is not JSON, or
  its JSON has no \<open>recipients\<close> or no \<open>alert\<close>: \<open>Malformed\<close>, with the error thrown), or
  it is an \<open>AlertRequest\<close>, whose members have the types of the records \<open>recipient\<close> and
  \<open>alert\<close> above.
\<close>

datatype body = Malformed js_error | AlertRequest "recipient list" alert

record request =
  http_method :: string
  body :: body

text \<open>
  A run of the handler: the network requests it issued, and its response (\<open>None\<close> while
  a delivery operation has not settled).
\<close>

record run =
  fetched :: "fetch_request list"
  response :: "response option"

definition serve :: "runtime \<Rightarrow> env \<Rightarrow> request \<Rightarrow> run" where
  "serve rt e req =
     (if http_method req = ''OPTIONS'' then \<lparr>fetched = [], response = Some Preflight\<rparr>
      else case body req of
        Malformed err \<Rightarrow>
          \<lparr>fetched = [],
           response = Some (Response500
             \<lparr>failure_success = False,
              error = (if js_error.message err \<noteq> [] then js_error.message err
                       else ''Failed to process emergency alert''),
              failure_sent = 0, failure_failed = 0\<rparr>)\<rparr>
      | AlertRequest rs a \<Rightarrow>
          (let st = process_recipients rt e a rs
           in \<lparr>fetched = concat (map issued (deliveryTasks st)),
               response =
                 (case allSettled (completion rt) (map outcome (deliveryTasks st)) of
                    None \<Rightarrow> None
                  | Some deliveryResults \<Rightarrow>
                      (let allErrors = earlyErrors st @ deliveryErrors deliveryResults (deliveryMeta st);
                           successful = length (filter is_fulfilled deliveryResults);
                           failedCount = length allErrors
                       in Some (Response200
                            \<lparr>success = (failedCount = 0),
                             sent = successful,
                             failed = failedCount,
                             errors = allErrors,
                             report.zone = (if truthy_value (alert.zone a) then alert.zone a
                                            else Text ''direct''),
                             report.radius = alert.radius a,
                             config = \<lparr>smsEnabled_flag = smsEnabled e,
                                       emailEnabled_flag = emailEnabled e\<rparr>,
                             message = render (if truthy_value (alert.zone a) then alert.zone a
                                               else Text ''Direct'')
                                       @ '' zone alert: '' @ show_nat successful
                                       @ '' delivered, '' @ show_nat failedCount @ '' failed''\<rparr>)))\<rparr>))"

section \<open>The location service\<close>

subsection \<open>Numbers\<close>

text \<open>
  A JavaScript number is a double: a finite value, which is a real number, one of the two
  infinities, the negative zero, or \<open>NaN\<close>. The comparisons are those of IEEE 754: with
  \<open>NaN\<close> on either side each of them is false, and the two zeros are equal.
\<close>

datatype number = NaN | NegInfinity | NegZero | Finite real | Infinity

fun finite_value :: "number \<Rightarrow> real option" where
  "finite_value (Finite x) = Some x"
| "finite_value NegZero = Some 0"
| "finite_value v = None"

definition number_le :: "number \<Rightarrow> number \<Rightarrow> bool" where
  \<comment> \<open>\<open>a <= b\<close>\<close>
  "number_le a b =
     (case (finite_value a, finite_value b) of
        (Some x, Some y) \<Rightarrow> x \<le> y
      | _ \<Rightarrow> a \<noteq> NaN \<and> b \<noteq> NaN \<and> (a = NegInfinity \<or> b = Infinity))"

definition number_gt :: "number \<Rightarrow> number \<Rightarrow> bool" where
  \<comment> \<open>\<open>a > b\<close>\<close>
  "number_gt a b =
     (case (finite_value a, finite_value b) of
        (Some x, Some y) \<Rightarrow> x > y
      | _ \<Rightarrow> a \<noteq> NaN \<and> b \<noteq> NaN \<and> a \<noteq> b \<and> (b = NegInfinity \<or> a = Infinity))"

text \<open>
  The arithmetic of the engine is a parameter of the model: every operation rounds its
  result to a double, and the results of \<open>Math.sin\<close>, \<open>Math.cos\<close> and \<open>Math.atan2\<close> are
  those of the engine's own implementation. \<open>literal m x\<close> is the value of a decimal
  literal of the source that denotes the real number \<open>x\<close>, the double nearest to \<open>x\<close>.
  The whole numbers 1, 2, 5, 25, 100, 180 and 6371 of the source are doubles themselves.
  \<open>toLowerCase m s\<close> is \<open>s.toLowerCase()\<close>, the engine's case mapping of the string \<open>s\<close>.
\<close>

record engine =
  num_add :: "number \<Rightarrow> number \<Rightarrow> number"
  num_sub :: "number \<Rightarrow> number \<Rightarrow> number"
  num_mul :: "number \<Rightarrow> number \<Rightarrow> number"
  num_div :: "number \<Rightarrow> number \<Rightarrow> number"
  Math_sin :: "number \<Rightarrow> number"
  Math_cos :: "number \<Rightarrow> number"
  Math_sqrt :: "number \<Rightarrow> number"
  Math_atan2 :: "number \<Rightarrow> number \<Rightarrow> number"
  Math_PI :: number
  literal :: "real \<Rightarrow> number"
  toLowerCase :: "string \<Rightarrow> string"

subsection \<open>Distances and zones\<close>

record LocationCoordinates =
  lat :: number
  lng :: number

record LocationInfo =
  city :: string
  state :: string
  coordinates :: LocationCoordinates
  region :: string

definition toRadians :: "engine \<Rightarrow> number \<Rightarrow> number" where
  \<comment> \<open>\<open>degrees * (Math.PI / 180)\<close>\<close>
  "toRadians m degrees = num_mul m degrees (num_div m (Math_PI m) (Finite 180))"

definition calculateDistance :: "engine \<Rightarrow> LocationCoordinates \<Rightarrow> LocationCoordinates \<Rightarrow> number" where
  "calculateDistance m coord1 coord2 =
     (let R = Finite 6371;
          dLat = toRadians m (num_sub m (lat coord2) (lat coord1));
          dLng = toRadians m (num_sub m (lng coord2) (lng coord1));
          a = num_add m
                (num_mul m (Math_sin m (num_div m dLat (Finite 2)))
                           (Math_sin m (num_div m dLat (Finite 2))))
                (num_mul m
                   (num_mul m
                      (num_mul m (Math_cos m (toRadians m (lat coord1)))
                                 (Math_cos m (toRadians m (lat coord2))))
                      (Math_sin m (num_div m dLng (Finite 2))))
                   (Math_sin m (num_div m dLng (Finite 2))));
          c = num_mul m (Finite 2)
                (Math_atan2 m (Math_sqrt m a) (Math_sqrt m (num_sub m (Finite 1) a)))
      in num_mul m R c)"

definition getMajorIndianCities :: "engine \<Rightarrow> LocationInfo list" where
  "getMajorIndianCities m =
     [
      \<lparr>city = ''Mumbai'', state = ''Maharashtra'', coordinates = \<lparr>lat = literal m 19.0760, lng = literal m 72.8777\<rparr>, region = ''West''\<rparr>,
      \<lparr>city = ''Delhi'', state = ''Delhi'', coordinates = \<lparr>lat = literal m 28.7041, lng = literal m 77.1025\<rparr>, region = ''North''\<rparr>,
      \<lparr>city = ''Bengaluru'', state = ''Karnataka'', coordinates = \<lparr>lat = literal m 12.9716, lng = literal m 77.5946\<rparr>, region = ''South''\<rparr>,
      \<lparr>city = ''Chennai'', state = ''Tamil Nadu'', coordinates = \<lparr>lat = literal m 13.0827, lng = literal m 80.2707\<rparr>, region = ''South''\<rparr>,
      \<lparr>city = ''Kolkata'', state = ''West Bengal'', coordinates = \<lparr>lat = literal m 22.5726, lng = literal m 88.3639\<rparr>, region = ''East''\<rparr>,
      \<lparr>city = ''Hyderabad'', state = ''Telangana'', coordinates = \<lparr>lat = literal m 17.3850, lng = literal m 78.4867\<rparr>, region = ''South''\<rparr>,
      \<lparr>city = ''Pune'', state = ''Maharashtra'', coordinates = \<lparr>lat = literal m 18.5204, lng = literal m 73.8567\<rparr>, region = ''West''\<rparr>,
      \<lparr>city = ''Ahmedabad'', state = ''Gujarat'', coordinates = \<lparr>lat = literal m 23.0225, lng = literal m 72.5714\<rparr>, region = ''West''\<rparr>,
      \<lparr>city = ''Jaipur'', state = ''Rajasthan'', coordinates = \<lparr>lat = literal m 26.9124, lng = literal m 75.7873\<rparr>, region = ''North''\<rparr>,
      \<lparr>city = ''Lucknow'', state = ''Uttar Pradesh'', coordinates = \<lparr>lat = literal m 26.8467, lng = literal m 80.9462\<rparr>, region = ''North''\<rparr>,
      \<lparr>city = ''Kanpur'', state = ''Uttar Pradesh'', coordinates = \<lparr>lat = literal m 26.4499, lng = literal m 80.3319\<rparr>, region = ''North''\<rparr>,
      \<lparr>city = ''Nagpur'', state = ''Maharashtra'', coordinates = \<lparr>lat = literal m 21.1458, lng = literal m 79.0882\<rparr>, region = ''Central''\<rparr>,
      \<lparr>city = ''Indore'', state = ''Madhya Pradesh'', coordinates = \<lparr>lat = literal m 22.7196, lng = literal m 75.8577\<rparr>, region = ''Central''\<rparr>,
      \<lparr>city = ''Thane'', state = ''Maharashtra'', coordinates = \<lparr>lat = literal m 19.2183, lng = literal m 72.9781\<rparr>, region = ''West''\<rparr>,
      \<lparr>city = ''Bhopal'', state = ''Madhya Pradesh'', coordinates = \<lparr>lat = literal m 23.2599, lng = literal m 77.4126\<rparr>, region = ''Central''\<rparr>,
      \<lparr>city = ''Visakhapatnam'', state = ''Andhra Pradesh'', coordinates = \<lparr>lat = literal m 17.6868, lng = literal m 83.2185\<rparr>, region = ''South''\<rparr>,
      \<lparr>city = ''Pimpri-Chinchwad'', state = ''Maharashtra'', coordinates = \<lparr>lat = literal m 18.6298, lng = literal m 73.7997\<rparr>, region = ''West''\<rparr>,
      \<lparr>city = ''Patna'', state = ''Bihar'', coordinates = \<lparr>lat = literal m 25.5941, lng = literal m 85.1376\<rparr>, region = ''East''\<rparr>,
      \<lparr>city = ''Vadodara'', state = ''Gujarat'', coordinates = \<lparr>lat = literal m 22.3072, lng = literal m 73.1812\<rparr>, region = ''West''\<rparr>,
      \<lparr>city = ''Ghaziabad'', state = ''Uttar Pradesh'', coordinates = \<lparr>lat = literal m 28.6692, lng = literal m 77.4538\<rparr>, region = ''North''\<rparr>,
      \<lparr>city = ''Ludhiana'', state = ''Punjab'', coordinates = \<lparr>lat = literal m 30.9010, lng = literal m 75.8573\<rparr>, region = ''North''\<rparr>,
      \<lparr>city = ''Agra'', state = ''Uttar Pradesh'', coordinates = \<lparr>lat = literal m 27.1767, lng = literal m 78.0081\<rparr>, region = ''North''\<rparr>,
      \<lparr>city = ''Nashik'', state = ''Maharashtra'', coordinates = \<lparr>lat = literal m 19.9975, lng = literal m 73.7898\<rparr>, region = ''West''\<rparr>,
      \<lparr>city = ''Faridabad'', state = ''Haryana'', coordinates = \<lparr>lat = literal m 28.4089, lng = literal m 77.3178\<rparr>, region = ''North''\<rparr>,
      \<lparr>city = ''Meerut'', state = ''Uttar Pradesh'', coordinates = \<lparr>lat = literal m 28.9845, lng = literal m 77.7064\<rparr>, region = ''North''\<rparr>,
      \<lparr>city = ''Rajkot'', state = ''Gujarat'', coordinates = \<lparr>lat = literal m 22.3039, lng = literal m 70.8022\<rparr>, region = ''West''\<rparr>,
      \<lparr>city = ''Kalyan-Dombivli'', state = ''Maharashtra'', coordinates = \<lparr>lat = literal m 19.2403, lng = literal m 73.1305\<rparr>, region = ''West''\<rparr>,
      \<lparr>city = ''Vasai-Virar'', state = ''Maharashtra'', coordinates = \<lparr>lat = literal m 19.4912, lng = literal m 72.8054\<rparr>, region = ''West''\<rparr>,
      \<lparr>city = ''Varanasi'', state = ''Uttar Pradesh'', coordinates = \<lparr>lat = literal m 25.3176, lng = literal m 82.9739\<rparr>, region = ''North''\<rparr>,
      \<lparr>city = ''Srinagar'', state = ''Jammu and Kashmir'', coordinates = \<lparr>lat = literal m 34.0837, lng = literal m 74.7973\<rparr>, region = ''North''\<rparr>,
      \<lparr>city = ''Aurangabad'', state = ''Maharashtra'', coordinates = \<lparr>lat = literal m 19.8762, lng = literal m 75.3433\<rparr>, region = ''West''\<rparr>,
      \<lparr>city = ''Dhanbad'', state = ''Jharkhand'', coordinates = \<lparr>lat = literal m 23.7957, lng = literal m 86.4304\<rparr>, region = ''East''\<rparr>,
      \<lparr>city = ''Amritsar'', state = ''Punjab'', coordinates = \<lparr>lat = literal m 31.6340, lng = literal m 74.8723\<rparr>, region = ''North''\<rparr>,
      \<lparr>city = ''Navi Mumbai'', state = ''Maharashtra'', coordinates = \<lparr>lat = literal m 19.0330, lng = literal m 73.0297\<rparr>, region = ''West''\<rparr>,
      \<lparr>city = ''Allahabad'', state = ''Uttar Pradesh'', coordinates = \<lparr>lat = literal m 25.4358, lng = literal m 81.8463\<rparr>, region = ''North''\<rparr>,
      \<lparr>city = ''Ranchi'', state = ''Jharkhand'', coordinates = \<lparr>lat = literal m 23.3441, lng = literal m 85.3096\<rparr>, region = ''East''\<rparr>,
      \<lparr>city = ''Howrah'', state = ''West Bengal'', coordinates = \<lparr>lat = literal m 22.5958, lng = literal m 88.2636\<rparr>, region = ''East''\<rparr>,
      \<lparr>city = ''Coimbatore'', state = ''Tamil Nadu'', coordinates = \<lparr>lat = literal m 11.0168, lng = literal m 76.9558\<rparr>, region = ''South''\<rparr>,
      \<lparr>city = ''Jabalpur'', state = ''Madhya Pradesh'', coordinates = \<lparr>lat = literal m 23.1815, lng = literal m 79.9864\<rparr>, region = ''Central''\<rparr>,
      \<lparr>city = ''Gwalior'', state = ''Madhya Pradesh'', coordinates = \<lparr>lat = literal m 26.2183, lng = literal m 78.1828\<rparr>, region = ''Central''\<rparr>,
      \<lparr>city = ''Vijayawada'', state = ''Andhra Pradesh'', coordinates = \<lparr>lat = literal m 16.5062, lng = literal m 80.6480\<rparr>, region = ''South''\<rparr>,
      \<lparr>city = ''Jodhpur'', state = ''Rajasthan'', coordinates = \<lparr>lat = literal m 26.2389, lng = literal m 73.0243\<rparr>, region = ''North''\<rparr>,
      \<lparr>city = ''Madurai'', state = ''Tamil Nadu'', coordinates = \<lparr>lat = literal m 9.9252, lng = literal m 78.1198\<rparr>, region = ''South''\<rparr>,
      \<lparr>city = ''Raipur'', state = ''Chhattisgarh'', coordinates = \<lparr>lat = literal m 21.2514, lng = literal m 81.6296\<rparr>, region = ''Central''\<rparr>,
      \<lparr>city = ''Kota'', state = ''Rajasthan'', coordinates = \<lparr>lat = literal m 25.2138, lng = literal m 75.8648\<rparr>, region = ''North''\<rparr>,
      \<lparr>city = ''Chandigarh'', state = ''Chandigarh'', coordinates = \<lparr>lat = literal m 30.7333, lng = literal m 76.7794\<rparr>, region = ''North''\<rparr>,
      \<lparr>city = ''Guwahati'', state = ''Assam'', coordinates = \<lparr>lat = literal m 26.1445, lng = literal m 91.7362\<rparr>, region = ''Northeast''\<rparr>,
      \<lparr>city = ''Solapur'', state = ''Maharashtra'', coordinates = \<lparr>lat = literal m 17.6599, lng = literal m 75.9064\<rparr>, region = ''West''\<rparr>,
      \<lparr>city = ''Hubli-Dharwad'', state = ''Karnataka'', coordinates = \<lparr>lat = literal m 15.3647, lng = literal m 75.1240\<rparr>, region = ''South''\<rparr>,
      \<lparr>city = ''Bareilly'', state = ''Uttar Pradesh'', coordinates = \<lparr>lat = literal m 28.3670, lng = literal m 79.4304\<rparr>, region = ''North''\<rparr>,
      \<lparr>city = ''Moradabad'', state = ''Uttar Pradesh'', coordinates = \<lparr>lat = literal m 28.8386, lng = literal m 78.7733\<rparr>, region = ''North''\<rparr>,
      \<lparr>city = ''Mysore'', state = ''Karnataka'', coordinates = \<lparr>lat = literal m 12.2958, lng = literal m 76.6394\<rparr>, region = ''South''\<rparr>,
      \<lparr>city = ''Gurgaon'', state = ''Haryana'', coordinates = \<lparr>lat = literal m 28.4595, lng = literal m 77.0266\<rparr>, region = ''North''\<rparr>,
      \<lparr>city = ''Aligarh'', state = ''Uttar Pradesh'', coordinates = \<lparr>lat = literal m 27.8974, lng = literal m 78.0880\<rparr>, region = ''North''\<rparr>,
      \<lparr>city = ''Jalandhar'', state = ''Punjab'', coordinates = \<lparr>lat = literal m 31.3260, lng = literal m 75.5762\<rparr>, region = ''North''\<rparr>,
      \<lparr>city = ''Tiruchirappalli'', state = ''Tamil Nadu'', coordinates = \<lparr>lat = literal m 10.7905, lng = literal m 78.7047\<rparr>, region = ''South''\<rparr>,
      \<lparr>city = ''Bhubaneswar'', state = ''Odisha'', coordinates = \<lparr>lat = literal m 20.2961, lng = literal m 85.8245\<rparr>, region = ''East''\<rparr>,
      \<lparr>city = ''Salem'', state = ''Tamil Nadu'', coordinates = \<lparr>lat = literal m 11.6643, lng = literal m 78.1460\<rparr>, region = ''South''\<rparr>,
      \<lparr>city = ''Warangal'', state = ''Telangana'', coordinates = \<lparr>lat = literal m 17.9689, lng = literal m 79.5941\<rparr>, region = ''South''\<rparr>,
      \<lparr>city = ''Mira-Bhayandar'', state = ''Maharashtra'', coordinates = \<lparr>lat = literal m 19.2952, lng = literal m 72.8544\<rparr>, region = ''West''\<rparr>,
      \<lparr>city = ''Thiruvananthapuram'', state = ''Kerala'', coordinates = \<lparr>lat = literal m 8.5241, lng = literal m 76.9366\<rparr>, region = ''South''\<rparr>,
      \<lparr>city = ''Bhiwandi'', state = ''Maharashtra'', coordinates = \<lparr>lat = literal m 19.3002, lng = literal m 73.0635\<rparr>, region = ''West''\<rparr>,
      \<lparr>city = ''Saharanpur'', state = ''Uttar Pradesh'', coordinates = \<lparr>lat = literal m 29.9680, lng = literal m 77.5552\<rparr>, region = ''North''\<rparr>,
      \<lparr>city = ''Guntur'', state = ''Andhra Pradesh'', coordinates = \<lparr>lat = literal m 16.3067, lng = literal m 80.4365\<rparr>, region = ''South''\<rparr>,
      \<lparr>city = ''Amravati'', state = ''Maharashtra'', coordinates = \<lparr>lat = literal m 20.9374, lng = literal m 77.7796\<rparr>, region = ''West''\<rparr>,
      \<lparr>city = ''Bikaner'', state = ''Rajasthan'', coordinates = \<lparr>lat = literal m 28.0229, lng = literal m 73.3119\<rparr>, region = ''North''\<rparr>,
      \<lparr>city = ''Noida'', state = ''Uttar Pradesh'', coordinates = \<lparr>lat = literal m 28.5355, lng = literal m 77.3910\<rparr>, region = ''North''\<rparr>,
      \<lparr>city = ''Jamshedpur'', state = ''Jharkhand'', coordinates = \<lparr>lat = literal m 22.8046, lng = literal m 86.2029\<rparr>, region = ''East''\<rparr>,
      \<lparr>city = ''Bhilai Nagar'', state = ''Chhattisgarh'', coordinates = \<lparr>lat = literal m 21.1938, lng = literal m 81.3509\<rparr>, region = ''Central''\<rparr>,
      \<lparr>city = ''Cuttack'', state = ''Odisha'', coordinates = \<lparr>lat = literal m 20.4625, lng = literal m 85.8828\<rparr>, region = ''East''\<rparr>,
      \<lparr>city = ''Firozabad'', state = ''Uttar Pradesh'', coordinates = \<lparr>lat = literal m 27.1592, lng = literal m 78.3957\<rparr>, region = ''North''\<rparr>,
      \<lparr>city = ''Kochi'', state = ''Kerala'', coordinates = \<lparr>lat = literal m 9.9312, lng = literal m 76.2673\<rparr>, region = ''South''\<rparr>,
      \<lparr>city = ''Bhavnagar'', state = ''Gujarat'', coordinates = \<lparr>lat = literal m 21.7645, lng = literal m 72.1519\<rparr>, region = ''West''\<rparr>,
      \<lparr>city = ''Dehradun'', state = ''Uttarakhand'', coordinates = \<lparr>lat = literal m 30.3165, lng = literal m 78.0322\<rparr>, region = ''North''\<rparr>,
      \<lparr>city = ''Durgapur'', state = ''West Bengal'', coordinates = \<lparr>lat = literal m 23.5204, lng = literal m 87.3119\<rparr>, region = ''East''\<rparr>,
      \<lparr>city = ''Asansol'', state = ''West Bengal'', coordinates = \<lparr>lat = literal m 23.6739, lng = literal m 86.9524\<rparr>, region = ''East''\<rparr>,
      \<lparr>city = ''Rourkela'', state = ''Odisha'', coordinates = \<lparr>lat = literal m 22.2604, lng = literal m 84.8536\<rparr>, region = ''East''\<rparr>,
      \<lparr>city = ''Nanded'', state = ''Maharashtra'', coordinates = \<lparr>lat = literal m 19.1383, lng = literal m 77.3210\<rparr>, region = ''West''\<rparr>,
      \<lparr>city = ''Kolhapur'', state = ''Maharashtra'', coordinates = \<lparr>lat = literal m 16.7050, lng = literal m 74.2433\<rparr>, region = ''West''\<rparr>,
      \<lparr>city = ''Ajmer'', state = ''Rajasthan'', coordinates = \<lparr>lat = literal m 26.4499, lng = literal m 74.6399\<rparr>, region = ''North''\<rparr>,
      \<lparr>city = ''Akola'', state = ''Maharashtra'', coordinates = \<lparr>lat = literal m 20.7002, lng = literal m 77.0082\<rparr>, region = ''West''\<rparr>,
      \<lparr>city = ''Gulbarga'', state = ''Karnataka'', coordinates = \<lparr>lat = literal m 17.3297, lng = literal m 76.8343\<rparr>, region = ''South''\<rparr>,
      \<lparr>city = ''Jamnagar'', state = ''Gujarat'', coordinates = \<lparr>lat = literal m 22.4707, lng = literal m 70.0577\<rparr>, region = ''West''\<rparr>,
      \<lparr>city = ''Ujjain'', state = ''Madhya Pradesh'', coordinates = \<lparr>lat = literal m 23.1765, lng = literal m 75.7885\<rparr>, region = ''Central''\<rparr>,
      \<lparr>city = ''Loni'', state = ''Uttar Pradesh'', coordinates = \<lparr>lat = literal m 28.7333, lng = literal m 77.2833\<rparr>, region = ''North''\<rparr>,
      \<lparr>city = ''Siliguri'', state = ''West Bengal'', coordinates = \<lparr>lat = literal m 26.7271, lng = literal m 88.3953\<rparr>, region = ''East''\<rparr>,
      \<lparr>city = ''Jhansi'', state = ''Uttar Pradesh'', coordinates = \<lparr>lat = literal m 25.4484, lng = literal m 78.5685\<rparr>, region = ''North''\<rparr>,
      \<lparr>city = ''Ulhasnagar'', state = ''Maharashtra'', coordinates = \<lparr>lat = literal m 19.2215, lng = literal m 73.1645\<rparr>, region = ''West''\<rparr>,
      \<lparr>city = ''Jammu'', state = ''Jammu and Kashmir'', coordinates = \<lparr>lat = literal m 32.7266, lng = literal m 74.8570\<rparr>, region = ''North''\<rparr>,
      \<lparr>city = ''Sangli-Miraj & Kupwad'', state = ''Maharashtra'', coordinates = \<lparr>lat = literal m 16.8524, lng = literal m 74.5815\<rparr>, region = ''West''\<rparr>,
      \<lparr>city = ''Mangalore'', state = ''Karnataka'', coordinates = \<lparr>lat = literal m 12.9141, lng = literal m 74.8560\<rparr>, region = ''South''\<rparr>,
      \<lparr>city = ''Erode'', state = ''Tamil Nadu'', coordinates = \<lparr>lat = literal m 11.3410, lng = literal m 77.7172\<rparr>, region = ''South''\<rparr>,
      \<lparr>city = ''Belgaum'', state = ''Karnataka'', coordinates = \<lparr>lat = literal m 15.8497, lng = literal m 74.4977\<rparr>, region = ''South''\<rparr>,
      \<lparr>city = ''Ambattur'', state = ''Tamil Nadu'', coordinates = \<lparr>lat = literal m 13.1143, lng = literal m 80.1548\<rparr>, region = ''South''\<rparr>,
      \<lparr>city = ''Tirunelveli'', state = ''Tamil Nadu'', coordinates = \<lparr>lat = literal m 8.7139, lng = literal m 77.7567\<rparr>, region = ''South''\<rparr>,
      \<lparr>city = ''Malegaon'', state = ''Maharashtra'', coordinates = \<lparr>lat = literal m 20.5579, lng = literal m 74.5287\<rparr>, region = ''West''\<rparr>,
      \<lparr>city = ''Gaya'', state = ''Bihar'', coordinates = \<lparr>lat = literal m 24.7914, lng = literal m 85.0002\<rparr>, region = ''East''\<rparr>
     ]"

record alert_zones =
  immediate :: "LocationInfo list"
  nearby :: "LocationInfo list"
  regional :: "LocationInfo list"

definition classify :: "engine \<Rightarrow> LocationCoordinates \<Rightarrow> alert_zones \<Rightarrow> LocationInfo \<Rightarrow> alert_zones" where
  \<comment> \<open>the callback of \<open>cities.forEach\<close> in \<open>getAlertZones\<close>\<close>
  "classify m alertCoordinates zones c =
     (let distance = calculateDistance m alertCoordinates (coordinates c)
      in if number_le distance (Finite 5) then zones\<lparr>immediate := immediate zones @ [c]\<rparr>
         else if number_le distance (Finite 25) then zones\<lparr>nearby := nearby zones @ [c]\<rparr>
         else if number_le distance (Finite 100) then zones\<lparr>regional := regional zones @ [c]\<rparr>
         else zones)"

definition getAlertZones :: "engine \<Rightarrow> LocationCoordinates \<Rightarrow> alert_zones" where
  "getAlertZones m alertCoordinates =
     foldl (classify m alertCoordinates) \<lparr>immediate = [], nearby = [], regional = []\<rparr>
       (getMajorIndianCities m)"

section \<open>The alert service\<close>

datatype zone_kind = Immediate | Nearby | Regional

record AlertZone =
  type :: zone_kind
  severity :: severity
  cities :: "string list"
  radius :: nat

fun reduceSeverity :: "severity \<Rightarrow> severity" where
  "reduceSeverity Critical = Warning"
| "reduceSeverity Warning = Info"
| "reduceSeverity s = Info"

definition defineAlertZones :: "engine \<Rightarrow> LocationCoordinates \<Rightarrow> severity \<Rightarrow> AlertZone list" where
  "defineAlertZones m alertCoordinates originalSeverity =
     (let zones0 = [];
          immediateZone = getAlertZones m alertCoordinates;
          zones1 = (if length (immediate immediateZone) > 0
                    then zones0 @ [\<lparr>AlertZone.type = Immediate, AlertZone.severity = originalSeverity,
                                    cities = map city (immediate immediateZone),
                                    AlertZone.radius = 5\<rparr>]
                    else zones0);
          zones2 = (if length (nearby immediateZone) > 0
                    then (let nearbySeverity = reduceSeverity originalSeverity
                          in zones1 @ [\<lparr>AlertZone.type = Nearby, AlertZone.severity = nearbySeverity,
                                         cities = map city (nearby immediateZone),
                                         AlertZone.radius = 25\<rparr>])
                    else zones1);
          zones3 = (if originalSeverity = Critical \<and> length (regional immediateZone) > 0
                    then zones2 @ [\<lparr>AlertZone.type = Regional, AlertZone.severity = Info,
                                    cities = map city (regional immediateZone),
                                    AlertZone.radius = 100\<rparr>]
                    else zones2)
      in zones3)"

datatype alert_type = Earthquake | Flood | Fire | Storm | Other

fun alert_type_name :: "alert_type \<Rightarrow> string" where
  "alert_type_name Earthquake = ''earthquake''"
| "alert_type_name Flood = ''flood''"
| "alert_type_name Fire = ''fire''"
| "alert_type_name Storm = ''storm''"
| "alert_type_name Other = ''other''"

record preferences =
  language :: string
  emailAlerts :: bool
  smsAlerts :: bool
  severityLevels :: "string list"
  alertTypes :: "string list"

text \<open>
  A subscriber as \<open>getActiveSubscribers\<close> hands it on. The query of the subscriber
  directory is outside this model.
\<close>

record Subscriber =
  subscriber_id :: string
  email :: "string option"
  phone :: "string option"
  city :: string
  state :: "string option"
  coordinates :: "LocationCoordinates option"
  preferences :: preferences

definition string_includes :: "string \<Rightarrow> string \<Rightarrow> bool" where
  \<comment> \<open>\<open>s.includes(t)\<close>: \<open>t\<close> occurs in \<open>s\<close> as a contiguous run (a string occurs in
      another exactly when its UTF-8 encoding occurs in the encoding of the other)\<close>
  "string_includes s t = sublist t s"

definition isInZone :: "engine \<Rightarrow> AlertZone \<Rightarrow> Subscriber \<Rightarrow> bool" where
  "isInZone m z subscriber =
     list_ex (\<lambda>c. string_includes (toLowerCase m (Subscriber.city subscriber)) (toLowerCase m c)
                 \<or> string_includes (toLowerCase m c) (toLowerCase m (Subscriber.city subscriber)))
       (cities z)"

definition zoneSubscribers ::
  "engine \<Rightarrow> AlertZone \<Rightarrow> alert_type \<Rightarrow> Subscriber list \<Rightarrow> Subscriber list" where
  \<comment> \<open>the filter of \<open>createTargetedAlerts\<close> for one zone; the third argument is
      \<open>originalAlert.type\<close>\<close>
  "zoneSubscribers m z originalType subscribers =
     filter (\<lambda>subscriber.
        if \<not> isInZone m z subscriber then False
        else (let wantsSeverity =
                    severity_name (AlertZone.severity z)
                      \<in> set (severityLevels (preferences subscriber));
                  wantsType =
                    alert_type_name originalType \<in> set (alertTypes (preferences subscriber))
              in wantsSeverity \<and> wantsType))
       subscribers"

definition formatRecipient :: "Subscriber \<Rightarrow> recipient" where
  \<comment> \<open>the callback of \<open>recipients.map\<close> in \<open>sendLocationBasedNotifications\<close>\<close>
  "formatRecipient subscriber =
     \<lparr>recipient.phone = (if smsAlerts (preferences subscriber)
                         then Subscriber.phone subscriber else None),
      recipient.email = (if emailAlerts (preferences subscriber)
                         then Subscriber.email subscriber else None),
      recipient.language = Text (preferences.language (preferences subscriber))\<rparr>"

definition formattedRecipients :: "Subscriber list \<Rightarrow> recipient list" where
  \<comment> \<open>\<open>recipients.map(...).filter(r => r.email || r.phone)\<close>: the recipients submitted to
      the delivery function for a zone\<close>
  "formattedRecipients rs =
     filter (\<lambda>r. truthy (recipient.email r) \<or> truthy (recipient.phone r)) (map formatRecipient rs)"

section \<open>Specification-level notions\<close>

subsection \<open>The tasks of a distribution run\<close>

text \<open>
  The tasks in the order of enumeration: recipients in submission order; for each
  recipient one task per non-empty address, SMS before Email.
\<close>

definition tasks_of :: "recipient \<Rightarrow> delivery_meta list" where
  "tasks_of r =
     (let lang = (if truthy_value (recipient.language r) then recipient.language r else Text ''en'')
      in (if truthy (recipient.phone r)
          then [\<lparr>delivery_meta.channel = SMS, delivery_meta.recipient = the (recipient.phone r),
                 delivery_meta.language = lang\<rparr>]
          else [])
         @ (if truthy (recipient.email r)
            then [\<lparr>delivery_meta.channel = Email, delivery_meta.recipient = the (recipient.email r),
                   delivery_meta.language = lang\<rparr>]
            else []))"

definition enumerate_tasks :: "recipient list \<Rightarrow> delivery_meta list" where
  "enumerate_tasks rs = concat (map tasks_of rs)"

fun channel_enabled :: "env \<Rightarrow> channel \<Rightarrow> bool" where
  "channel_enabled e SMS = smsEnabled e"
| "channel_enabled e Email = emailEnabled e"

fun missing :: "env \<Rightarrow> channel \<Rightarrow> string list" where
  "missing e SMS = missingTwilio e"
| "missing e Email = missingSmtp e"

definition gated_tasks :: "env \<Rightarrow> recipient list \<Rightarrow> delivery_meta list" where
  \<comment> \<open>the tasks on a channel whose gate is closed\<close>
  "gated_tasks e rs = filter (\<lambda>t. \<not> channel_enabled e (delivery_meta.channel t)) (enumerate_tasks rs)"

definition issued_tasks :: "env \<Rightarrow> recipient list \<Rightarrow> delivery_meta list" where
  \<comment> \<open>the tasks on a channel whose gate is open: one send operation each\<close>
  "issued_tasks e rs = filter (\<lambda>t. channel_enabled e (delivery_meta.channel t)) (enumerate_tasks rs)"

definition early_error :: "env \<Rightarrow> delivery_meta \<Rightarrow> error_entry" where
  \<comment> \<open>the failed outcome of a gated task: its reason names the channel and the missing
      settings\<close>
  "early_error e t =
     \<lparr>error_entry.channel = delivery_meta.channel t,
      error_entry.recipient = delivery_meta.recipient t,
      error_entry.language = None,
      reason = channel_name (delivery_meta.channel t) @ '' service not configured: ''
               @ join '', '' (missing e (delivery_meta.channel t))\<rparr>"

definition rejected_error :: "delivery_meta \<Rightarrow> js_error \<Rightarrow> error_entry" where
  \<comment> \<open>the failed outcome of a send operation that was rejected with \<open>err\<close>\<close>
  "rejected_error t err =
     \<lparr>error_entry.channel = delivery_meta.channel t,
      error_entry.recipient = delivery_meta.recipient t,
      error_entry.language = Some (delivery_meta.language t),
      reason = reason_text err\<rparr>"

fun rejections :: "delivery_meta list \<Rightarrow> settled list \<Rightarrow> error_entry list" where
  \<comment> \<open>the entries of the rejected ones among the issued tasks, in their order\<close>
  "rejections (t # ts) (Rejected err # outs) = rejected_error t err # rejections ts outs"
| "rejections (t # ts) (Fulfilled v # outs) = rejections ts outs"
| "rejections ts outs = []"

fun errors_in_enumeration_order :: "env \<Rightarrow> delivery_meta list \<Rightarrow> settled list \<Rightarrow> error_entry list" where
  \<comment> \<open>one entry per failed task, in the order of enumeration; \<open>outs\<close> are the outcomes of
      the issued tasks, in their order\<close>
  "errors_in_enumeration_order e [] outs = []"
| "errors_in_enumeration_order e (t # ts) outs =
     (if \<not> channel_enabled e (delivery_meta.channel t)
      then early_error e t # errors_in_enumeration_order e ts outs
      else (case outs of
              [] \<Rightarrow> errors_in_enumeration_order e ts []
            | Rejected err # outs' \<Rightarrow> rejected_error t err # errors_in_enumeration_order e ts outs'
            | Fulfilled v # outs' \<Rightarrow> errors_in_enumeration_order e ts outs'))"

definition report_of :: "run \<Rightarrow> report option" where
  "report_of r = (case response r of Some (Response200 rep) \<Rightarrow> Some rep | _ \<Rightarrow> None)"

text \<open>
  How a started operation belongs to its task: it is the call of the channel's send
  function for the task's address and language.
\<close>

definition paired :: "runtime \<Rightarrow> env \<Rightarrow> alert \<Rightarrow> promise \<Rightarrow> delivery_meta \<Rightarrow> bool" where
  "paired rt e a p m =
     (case delivery_meta.channel m of
        Email \<Rightarrow> p = sendEnhancedEmail rt (delivery_meta.recipient m) a (delivery_meta.language m)
                      (the (SMTP_HOST e)) (the (SMTP_USER e)) (the (SMTP_PASS e))
                      (the (FROM_EMAIL e)) (smtpPort e)
      | SMS \<Rightarrow> (\<exists>i. p = sendEnhancedSMS rt i (delivery_meta.recipient m) a (delivery_meta.language m)
                      (the (TWILIO_ACCOUNT_SID e)) (the (TWILIO_AUTH_TOKEN e))
                      (the (TWILIO_PHONE_NUMBER e))))"

subsection \<open>The configuration gates\<close>

text \<open>
  The settings of a channel, each with the name under which the function reads it: three
  for SMS (account identifier, auth credential, sending number) and four for email (host,
  from-address, username, password). A gate is closed when one of the channel's settings
  is unset or empty. The failed outcome of a task on a closed gate names the channel and
  the settings that are unset or empty.
\<close>

definition settings :: "env \<Rightarrow> channel \<Rightarrow> (string \<times> string option) list" where
  "settings e c =
     (case c of
        SMS \<Rightarrow> [(''TWILIO_ACCOUNT_SID'', TWILIO_ACCOUNT_SID e),
                (''TWILIO_AUTH_TOKEN'', TWILIO_AUTH_TOKEN e),
                (''TWILIO_PHONE_NUMBER'', TWILIO_PHONE_NUMBER e)]
      | Email \<Rightarrow> [(''SMTP_HOST'', SMTP_HOST e), (''FROM_EMAIL'', FROM_EMAIL e),
                  (''SMTP_USER'', SMTP_USER e), (''SMTP_PASS'', SMTP_PASS e)])"

definition unset_or_empty :: "string option \<Rightarrow> bool" where
  "unset_or_empty v = (v = None \<or> v = Some [])"

definition unset_settings :: "env \<Rightarrow> channel \<Rightarrow> string list" where
  "unset_settings e c = map fst (filter (\<lambda>nv. unset_or_empty (snd nv)) (settings e c))"

definition gate_closed :: "env \<Rightarrow> channel \<Rightarrow> bool" where
  "gate_closed e c = list_ex (\<lambda>nv. unset_or_empty (snd nv)) (settings e c)"

definition gated_entry :: "env \<Rightarrow> channel \<Rightarrow> string \<Rightarrow> error_entry" where
  "gated_entry e c address =
     \<lparr>error_entry.channel = c, error_entry.recipient = address, error_entry.language = None,
      reason = channel_name c @ '' service not configured: '' @ join '', '' (unset_settings e c)\<rparr>"

definition addresses_on :: "channel \<Rightarrow> recipient list \<Rightarrow> string list" where
  \<comment> \<open>the non-empty addresses of the recipients on a channel, in submission order: the
      tasks on that channel\<close>
  "addresses_on c rs =
     concat (map (\<lambda>r. case (case c of SMS \<Rightarrow> recipient.phone r | Email \<Rightarrow> recipient.email r) of
                         None \<Rightarrow> []
                       | Some address \<Rightarrow> if address = [] then [] else [address]) rs)"

subsection \<open>Concrete runs\<close>

definition demo_alert :: alert where
  "demo_alert =
     \<lparr>alert_id = ''a1'', alert.title = ''Flood warning'', alert.description = ''River level rising'',
      alert.severity = Critical, alert.type = ''flood'', location = ''Chennai'',
      timestamp = ''2025-01-01T00:00:00Z'', source = ''IMD'', alert.zone = Undefined,
      alert.radius = Undefined, languages = None\<rparr>"

definition env_email_only :: env where
  \<comment> \<open>the SMS account identifier is missing; email is configured\<close>
  "env_email_only =
     \<lparr>TWILIO_ACCOUNT_SID = None, TWILIO_AUTH_TOKEN = Some ''token'',
      TWILIO_PHONE_NUMBER = Some ''+15550000'', SMTP_HOST = Some ''smtp.example.org'',
      SMTP_USER = Some ''user'', SMTP_PASS = Some ''pass'', FROM_EMAIL = Some ''alerts@example.org'',
      SMTP_PORT = None\<rparr>"

definition env_sms_only :: env where
  \<comment> \<open>SMS is configured; the email host is the empty string\<close>
  "env_sms_only =
     \<lparr>TWILIO_ACCOUNT_SID = Some ''AC1'', TWILIO_AUTH_TOKEN = Some ''token'',
      TWILIO_PHONE_NUMBER = Some ''+15550000'', SMTP_HOST = Some [],
      SMTP_USER = Some ''user'', SMTP_PASS = Some ''pass'', FROM_EMAIL = Some ''alerts@example.org'',
      SMTP_PORT = None\<rparr>"

definition env_full :: env where
  "env_full =
     \<lparr>TWILIO_ACCOUNT_SID = Some ''AC1'', TWILIO_AUTH_TOKEN = Some ''token'',
      TWILIO_PHONE_NUMBER = Some ''+15550000'', SMTP_HOST = Some ''smtp.example.org'',
      SMTP_USER = Some ''user'', SMTP_PASS = Some ''pass'', FROM_EMAIL = Some ''alerts@example.org'',
      SMTP_PORT = Some ''2525''\<rparr>"

definition env_unconfigured :: env where
  \<comment> \<open>no setting is present, except an empty SMS sending number\<close>
  "env_unconfigured =
     \<lparr>TWILIO_ACCOUNT_SID = None, TWILIO_AUTH_TOKEN = None, TWILIO_PHONE_NUMBER = Some [],
      SMTP_HOST = None, SMTP_USER = None, SMTP_PASS = None, FROM_EMAIL = None, SMTP_PORT = None\<rparr>"

definition demo_btoa :: "string \<Rightarrow> js_error + string" where
  \<comment> \<open>the host's encoder on the credentials of the runs below\<close>
  "demo_btoa s =
     (if s = ''AC1:token'' then Inr ''QUMxOnRva2Vu''
      else Inl (JsError ''InvalidCharacterError''
             ''The string to be encoded contains characters outside of the Latin1 range.''))"

definition ascii_toUpperCase :: "string \<Rightarrow> string" where
  \<comment> \<open>the case mapping of the host on the strings of the runs below: on a string of ASCII
      characters, \<open>toUpperCase\<close> maps the letters a to z\<close>
  "ascii_toUpperCase s =
     map (\<lambda>c. case map_of (zip ''abcdefghijklmnopqrstuvwxyz'' ''ABCDEFGHIJKLMNOPQRSTUVWXYZ'') c of
                Some u \<Rightarrow> u | None \<Rightarrow> c) s"

definition provider_rejects :: runtime where
  \<comment> \<open>the SMS provider answers every request with status 500\<close>
  "provider_rejects =
     \<lparr>fetch = (\<lambda>i r. Responded \<lparr>http_response.status = 500, statusText = ''Internal Server Error'',
                                  body_text = Some ''down''\<rparr>),
      btoa = demo_btoa, toLocaleString = (\<lambda>s. s), toUpperCase = ascii_toUpperCase,
      completion = [0, 1]\<rparr>"

definition provider_accepts :: runtime where
  \<comment> \<open>the SMS provider answers every request with status 201\<close>
  "provider_accepts =
     \<lparr>fetch = (\<lambda>i r. Responded \<lparr>http_response.status = 201, statusText = ''Created'',
                                  body_text = Some ''{}''\<rparr>),
      btoa = demo_btoa, toLocaleString = (\<lambda>s. s), toUpperCase = ascii_toUpperCase,
      completion = [0, 1]\<rparr>"

definition phone_only :: recipient where
  "phone_only = \<lparr>recipient.phone = Some ''+911'', recipient.email = None, recipient.language = Text ''en''\<rparr>"

definition email_only :: recipient where
  "email_only =
     \<lparr>recipient.phone = None, recipient.email = Some ''b@example.org'', recipient.language = Text ''en''\<rparr>"

definition phone_and_email :: recipient where
  "phone_and_email =
     \<lparr>recipient.phone = Some ''+911'', recipient.email = Some ''a@example.org'',
      recipient.language = Undefined\<rparr>"

definition numeric_language :: recipient where
  \<comment> \<open>\<open>{"email": "c@example.org", "language": 5}\<close>\<close>
  "numeric_language =
     \<lparr>recipient.phone = None, recipient.email = Some ''c@example.org'',
      recipient.language = NonText ''5''\<rparr>"

definition scenario_B :: request where
  \<comment> \<open>Scenario B of the specification\<close>
  "scenario_B = \<lparr>http_method = ''POST'', body = AlertRequest [phone_only, email_only] demo_alert\<rparr>"

definition both_channels :: request where
  "both_channels = \<lparr>http_method = ''POST'', body = AlertRequest [phone_and_email] demo_alert\<rparr>"

definition not_json :: request where
  "not_json =
     \<lparr>http_method = ''POST'', body = Malformed (JsError ''SyntaxError'' ''Unexpected end of JSON input'')\<rparr>"

definition language_is_a_number :: request where
  "language_is_a_number =
     \<lparr>http_method = ''POST'', body = AlertRequest [numeric_language, email_only] demo_alert\<rparr>"

definition zone_is_a_number :: request where
  \<comment> \<open>the alert has \<open>"zone": 7\<close>\<close>
  "zone_is_a_number =
     \<lparr>http_method = ''POST'',
      body = AlertRequest [email_only] (demo_alert\<lparr>alert.zone := NonText ''7''\<rparr>)\<rparr>"

definition scenario_B_report :: report where
  "scenario_B_report =
     \<lparr>success = False, sent = 1, failed = 1,
      errors = [\<lparr>error_entry.channel = SMS, error_entry.recipient = ''+911'',
                 error_entry.language = None,
                 reason = ''SMS service not configured: TWILIO_ACCOUNT_SID''\<rparr>],
      report.zone = Text ''direct'', report.radius = Undefined,
      config = \<lparr>smsEnabled_flag = False, emailEnabled_flag = True\<rparr>,
      message = ''Direct zone alert: 1 delivered, 1 failed''\<rparr>"

definition gated_email_entry :: error_entry where
  "gated_email_entry =
     \<lparr>error_entry.channel = Email, error_entry.recipient = ''a@example.org'',
      error_entry.language = None, reason = ''Email service not configured: SMTP_HOST''\<rparr>"

definition rejected_sms_entry :: error_entry where
  "rejected_sms_entry =
     \<lparr>error_entry.channel = SMS, error_entry.recipient = ''+911'',
      error_entry.language = Some (Text ''en''), reason = ''SMS delivery failed: 500 down''\<rparr>"

subsection \<open>The inclusion of a subscriber\<close>

text \<open>
  The four conditions of the specification: the location names match by a
  case-insensitive substring test in either direction, that is, one name in lower case
  occurs in the other name in lower case; the zone's severity is in the subscriber's
  severity filter; the alert's type is in the type filter; and some channel is opted in
  with a non-empty address.
\<close>

definition names_match :: "engine \<Rightarrow> string \<Rightarrow> string \<Rightarrow> bool" where
  "names_match m a b =
     (sublist (toLowerCase m a) (toLowerCase m b) \<or> sublist (toLowerCase m b) (toLowerCase m a))"

definition include_subscriber :: "engine \<Rightarrow> Subscriber \<Rightarrow> AlertZone \<Rightarrow> alert_type \<Rightarrow> bool" where
  "include_subscriber m s z t =
     ((\<exists>n\<in>set (cities z). names_match m (Subscriber.city s) n)
      \<and> severity_name (AlertZone.severity z) \<in> set (severityLevels (preferences s))
      \<and> alert_type_name t \<in> set (alertTypes (preferences s))
      \<and> ((emailAlerts (preferences s) \<and> truthy (Subscriber.email s))
          \<or> (smsAlerts (preferences s) \<and> truthy (Subscriber.phone s))))"

subsection \<open>The great-circle distance\<close>

text \<open>
  The Haversine formula for the distance, in kilometres, between two points given in
  degrees, on a sphere of radius 6371 km.
\<close>

definition radians :: "real \<Rightarrow> real" where
  "radians x = x * (pi / 180)"

definition haversine :: "real \<Rightarrow> real" where
  "haversine t = sin (t / 2) * sin (t / 2)"

definition haversine_sum :: "real \<Rightarrow> real \<Rightarrow> real \<Rightarrow> real \<Rightarrow> real" where
  "haversine_sum lat1 lng1 lat2 lng2 =
     haversine (radians (lat2 - lat1))
     + cos (radians lat1) * cos (radians lat2) * haversine (radians (lng2 - lng1))"

definition great_circle_km :: "real \<Rightarrow> real \<Rightarrow> real \<Rightarrow> real \<Rightarrow> real" where
  "great_circle_km lat1 lng1 lat2 lng2 = 2 * 6371 * arcsin (sqrt (haversine_sum lat1 lng1 lat2 lng2))"

subsection \<open>An engine with exact arithmetic\<close>

text \<open>
  The engine of the concrete places below computes without rounding. An operation on
  finite operands has the exact real result; where an operand is not finite, or the exact
  result is no real number (a division by zero, the square root of a negative number),
  the result is \<open>NaN\<close>. Its case mapping is that of the ASCII letters, which is the case
  mapping of every engine on a string of ASCII characters.
\<close>

definition exact1 :: "(real \<Rightarrow> real) \<Rightarrow> number \<Rightarrow> number" where
  "exact1 f a = (case finite_value a of Some x \<Rightarrow> Finite (f x) | None \<Rightarrow> NaN)"

definition exact2 :: "(real \<Rightarrow> real \<Rightarrow> real) \<Rightarrow> number \<Rightarrow> number \<Rightarrow> number" where
  "exact2 f a b =
     (case finite_value a of
        None \<Rightarrow> NaN
      | Some x \<Rightarrow> (case finite_value b of None \<Rightarrow> NaN | Some y \<Rightarrow> Finite (f x y)))"

definition atan2 :: "real \<Rightarrow> real \<Rightarrow> real" where
  \<comment> \<open>the angle of the point \<open>(x, y)\<close> (the arguments are in the order of \<open>Math.atan2\<close>)\<close>
  "atan2 y x =
     (if x > 0 then arctan (y / x)
      else if x < 0 then (if y \<ge> 0 then arctan (y / x) + pi else arctan (y / x) - pi)
      else if y > 0 then pi / 2
      else if y < 0 then - (pi / 2)
      else 0)"

definition ascii_toLowerCase :: "string \<Rightarrow> string" where
  "ascii_toLowerCase s =
     map (\<lambda>c. case map_of (zip ''ABCDEFGHIJKLMNOPQRSTUVWXYZ'' ''abcdefghijklmnopqrstuvwxyz'') c of
                Some l \<Rightarrow> l | None \<Rightarrow> c) s"

definition exact_engine :: engine where
  "exact_engine =
     \<lparr>num_add = exact2 (\<lambda>x y. x + y),
      num_sub = exact2 (\<lambda>x y. x - y),
      num_mul = exact2 (\<lambda>x y. x * y),
      num_div = (\<lambda>a b. if finite_value b = Some 0 then NaN else exact2 (\<lambda>x y. x / y) a b),
      Math_sin = exact1 sin,
      Math_cos = exact1 cos,
      Math_sqrt = (\<lambda>a. case finite_value a of
                          None \<Rightarrow> NaN
                        | Some x \<Rightarrow> if x < 0 then NaN else Finite (sqrt x)),
      Math_atan2 = exact2 atan2,
      Math_PI = Finite pi,
      literal = Finite,
      toLowerCase = ascii_toLowerCase\<rparr>"

subsection \<open>Concrete places, zones and subscribers\<close>

definition chennai :: LocationInfo where
  \<comment> \<open>the catalog's entry of Chennai, as the exact engine reads it\<close>
  "chennai =
     \<lparr>LocationInfo.city = ''Chennai'', LocationInfo.state = ''Tamil Nadu'',
      LocationInfo.coordinates = \<lparr>lat = Finite 13.0827, lng = Finite 80.2707\<rparr>, region = ''South''\<rparr>"

definition south_of_chennai :: "real \<Rightarrow> LocationCoordinates" where
  \<comment> \<open>the point on Chennai's meridian, \<open>d\<close> degrees of latitude to the south\<close>
  "south_of_chennai d = \<lparr>lat = Finite (13.0827 - d), lng = Finite 80.2707\<rparr>"



definition immediate_zone :: "engine \<Rightarrow> LocationCoordinates \<Rightarrow> severity \<Rightarrow> AlertZone" where
  "immediate_zone m ep s =
     \<lparr>AlertZone.type = Immediate, AlertZone.severity = s,
      cities = map LocationInfo.city (immediate (getAlertZones m ep)), AlertZone.radius = 5\<rparr>"

definition nearby_zone :: "engine \<Rightarrow> LocationCoordinates \<Rightarrow> severity \<Rightarrow> AlertZone" where
  "nearby_zone m ep s =
     \<lparr>AlertZone.type = Nearby, AlertZone.severity = reduceSeverity s,
      cities = map LocationInfo.city (nearby (getAlertZones m ep)), AlertZone.radius = 25\<rparr>"

definition regional_zone :: "engine \<Rightarrow> LocationCoordinates \<Rightarrow> AlertZone" where
  "regional_zone m ep =
     \<lparr>AlertZone.type = Regional, AlertZone.severity = Info,
      cities = map LocationInfo.city (regional (getAlertZones m ep)), AlertZone.radius = 100\<rparr>"

definition chennai_warning_zone :: AlertZone where
  "chennai_warning_zone =
     \<lparr>AlertZone.type = Nearby, AlertZone.severity = Warning, cities = [''Chennai'', ''Ambattur''],
      AlertZone.radius = 25\<rparr>"

definition subscriber_in :: "string \<Rightarrow> string option \<Rightarrow> string option \<Rightarrow> bool \<Rightarrow> bool \<Rightarrow> string list
    \<Rightarrow> Subscriber" where
  "subscriber_in place em ph byEmail bySms levels =
     \<lparr>subscriber_id = ''u'', Subscriber.email = em, Subscriber.phone = ph, Subscriber.city = place,
      Subscriber.state = None, Subscriber.coordinates = None,
      preferences = \<lparr>preferences.language = ''en'', emailAlerts = byEmail, smsAlerts = bySms,
                      severityLevels = levels, alertTypes = [''flood'', ''storm'']\<rparr>\<rparr>"

definition directory :: "Subscriber list" where
  "directory =
     [subscriber_in ''chennai'' (Some ''a@example.org'') None True False [''warning''],
      subscriber_in ''Pune'' (Some ''b@example.org'') None True False [''warning''],
      subscriber_in ''Chennai'' (Some ''c@example.org'') None True False [''critical''],
      subscriber_in ''Greater Chennai'' (Some ''d@example.org'') (Some ''+914'') False True [''warning''],
      subscriber_in ''Chennai'' (Some ''e@example.org'') (Some []) False True [''warning'']]"

definition hindi_alert :: alert where
  \<comment> \<open>an alert with a Hindi entry in its languages map, and no other\<close>
  "hindi_alert =
     demo_alert\<lparr>languages :=
       Some [''hi'' \<mapsto> \<lparr>localized_text.title = Text ''Baadh ki chetavani'',
                        localized_text.description = Text ''Nadi ka star badh raha hai''\<rparr>]\<rparr>"

section \<open>Properties of the delivery function\<close>

declare show_nat.simps [simp del]

subsection \<open>\<open>Promise.allSettled\<close> is aligned with its input\<close>

lemma fold_slots:
  "length s = length outs \<Longrightarrow>
   length (fold (\<lambda>i s. if i < length outs then s[i := Some (outs ! i)] else s) ord s) = length outs \<and>
   (\<forall>i<length outs.
      fold (\<lambda>i s. if i < length outs then s[i := Some (outs ! i)] else s) ord s ! i
        = (if i \<in> set ord then Some (outs ! i) else s ! i))"
proof (induction ord arbitrary: s)
  case Nil
  then show ?case by simp
next
  case (Cons j ord)
  show ?case
  proof (cases "j < length outs")
    case True
    have len: "length (s[j := Some (outs ! j)]) = length outs"
      using Cons.prems by simp
    from Cons.IH[OF len] True Cons.prems show ?thesis
      by (auto simp: nth_list_update)
  next
    case False
    from Cons.IH[OF Cons.prems] False show ?thesis by auto
  qed
qed

lemma slots_of_run:
  fixes outs :: "'a list"
  defines "slots ord \<equiv>
    fold (\<lambda>i s. if i < length outs then s[i := Some (outs ! i)] else s) ord
      (replicate (length outs) None)"
  shows "length (slots ord) = length outs"
    and "i < length outs \<Longrightarrow> slots ord ! i = (if i \<in> set ord then Some (outs ! i) else None)"
  using fold_slots[of "replicate (length outs) None" outs ord] by (simp_all add: slots_def)

lemma allSettled_Some:
  assumes "allSettled ord outs = Some r"
  shows "r = outs"
proof -
  let ?slots = "fold (\<lambda>i s. if i < length outs then s[i := Some (outs ! i)] else s) ord
                  (replicate (length outs) None)"
  from assms have all: "list_all (\<lambda>x. x \<noteq> None) ?slots" and r: "r = map the ?slots"
    by (auto simp: allSettled_def Let_def split: if_splits)
  have "map the ?slots = outs"
  proof (rule nth_equalityI)
    show "length (map the ?slots) = length outs"
      by (simp add: slots_of_run(1))
  next
    fix i
    assume "i < length (map the ?slots)"
    then have i: "i < length outs"
      by (simp add: slots_of_run(1))
    then have "?slots ! i \<noteq> None"
      using all by (simp add: list_all_length slots_of_run(1))
    with slots_of_run(2)[OF i, of ord] have "?slots ! i = Some (outs ! i)"
      by (auto split: if_splits)
    then show "map the ?slots ! i = outs ! i"
      using i by (simp add: slots_of_run(1))
  qed
  with r show ?thesis by simp
qed

lemma allSettled_complete:
  assumes "{0..<length outs} \<subseteq> set ord"
  shows "allSettled ord outs = Some outs"
proof -
  let ?slots = "fold (\<lambda>i s. if i < length outs then s[i := Some (outs ! i)] else s) ord
                  (replicate (length outs) None)"
  have each: "\<forall>i<length outs. ?slots ! i = Some (outs ! i)"
    using slots_of_run(2)[of _ outs ord] assms by auto
  then have all: "list_all (\<lambda>x. x \<noteq> None) ?slots"
    by (simp add: list_all_length slots_of_run(1))
  have "map the ?slots = outs"
    by (rule nth_equalityI) (use each in \<open>auto simp: slots_of_run(1)\<close>)
  with all show ?thesis
    by (simp add: allSettled_def Let_def)
qed

lemma allSettled_pending:
  assumes "i < length outs" and "i \<notin> set ord"
  shows "allSettled ord outs = None"
proof -
  let ?slots = "fold (\<lambda>i s. if i < length outs then s[i := Some (outs ! i)] else s) ord
                  (replicate (length outs) None)"
  from slots_of_run(2)[OF assms(1), of ord] assms(2) have "?slots ! i = None"
    by simp
  with assms(1) have "\<not> list_all (\<lambda>x. x \<noteq> None) ?slots"
    by (auto simp: list_all_length slots_of_run(1))
  then show ?thesis
    by (simp add: allSettled_def Let_def)
qed

subsection \<open>The loop over the recipients\<close>

lemma step_early:
  "earlyErrors (process_recipient rt e a st r)
     = earlyErrors st
       @ map (early_error e)
           (filter (\<lambda>t. \<not> channel_enabled e (delivery_meta.channel t)) (tasks_of r))"
  by (simp add: process_recipient_def tasks_of_def early_error_def Let_def)

lemma step_meta:
  "deliveryMeta (process_recipient rt e a st r)
     = deliveryMeta st @ filter (\<lambda>t. channel_enabled e (delivery_meta.channel t)) (tasks_of r)"
  by (simp add: process_recipient_def tasks_of_def Let_def)

lemma step_paired:
  "list_all2 (paired rt e a) (deliveryTasks st) (deliveryMeta st) \<Longrightarrow>
   list_all2 (paired rt e a) (deliveryTasks (process_recipient rt e a st r))
     (deliveryMeta (process_recipient rt e a st r))"
  by (auto simp: process_recipient_def Let_def paired_def intro!: list_all2_appendI)

lemma loop_early:
  "earlyErrors (foldl (process_recipient rt e a) st rs)
     = earlyErrors st @ map (early_error e) (gated_tasks e rs)"
  by (induction rs arbitrary: st) (simp_all add: gated_tasks_def enumerate_tasks_def step_early)

lemma loop_meta:
  "deliveryMeta (foldl (process_recipient rt e a) st rs) = deliveryMeta st @ issued_tasks e rs"
  by (induction rs arbitrary: st) (simp_all add: issued_tasks_def enumerate_tasks_def step_meta)

lemma loop_paired:
  "list_all2 (paired rt e a) (deliveryTasks st) (deliveryMeta st) \<Longrightarrow>
   list_all2 (paired rt e a) (deliveryTasks (foldl (process_recipient rt e a) st rs))
     (deliveryMeta (foldl (process_recipient rt e a) st rs))"
  by (induction rs arbitrary: st) (simp_all add: step_paired)

lemma run_early:
  "earlyErrors (process_recipients rt e a rs) = map (early_error e) (gated_tasks e rs)"
  by (simp add: process_recipients_def loop_early)

lemma run_meta:
  "deliveryMeta (process_recipients rt e a rs) = issued_tasks e rs"
  by (simp add: process_recipients_def loop_meta)

lemma run_paired:
  "list_all2 (paired rt e a) (deliveryTasks (process_recipients rt e a rs)) (issued_tasks e rs)"
proof -
  have "list_all2 (paired rt e a) (deliveryTasks (process_recipients rt e a rs))
          (deliveryMeta (process_recipients rt e a rs))"
    unfolding process_recipients_def by (rule loop_paired) simp
  then show ?thesis by (simp add: run_meta)
qed

lemma run_length:
  "length (deliveryTasks (process_recipients rt e a rs)) = length (issued_tasks e rs)"
  using run_paired[of rt e a rs] by (rule list_all2_lengthD)

lemma split_tasks:
  "length (gated_tasks e rs) + length (issued_tasks e rs) = length (enumerate_tasks rs)"
  using sum_length_filter_compl[of "\<lambda>t. channel_enabled e (delivery_meta.channel t)" "enumerate_tasks rs"]
  by (simp add: gated_tasks_def issued_tasks_def)

lemma host_without_completion:
  "fetch (rt\<lparr>completion := ord\<rparr>) = fetch rt"
  "btoa (rt\<lparr>completion := ord\<rparr>) = btoa rt"
  "toLocaleString (rt\<lparr>completion := ord\<rparr>) = toLocaleString rt"
  "toUpperCase (rt\<lparr>completion := ord\<rparr>) = toUpperCase rt"
  by simp_all

lemma sms_ignores_completion:
  "sendEnhancedSMS (rt\<lparr>completion := ord\<rparr>) i p a l sid token number
     = sendEnhancedSMS rt i p a l sid token number"
  unfolding sendEnhancedSMS_def createEnhancedSMSMessage_def host_without_completion
  by (rule refl)

lemma html_ignores_completion:
  "email_html (rt\<lparr>completion := ord\<rparr>) a loc zi zc zu lu = email_html rt a loc zi zc zu lu"
  unfolding email_html_def host_without_completion
  by (rule refl)

lemma email_ignores_completion:
  "sendEnhancedEmail (rt\<lparr>completion := ord\<rparr>) em a l h u p f port
     = sendEnhancedEmail rt em a l h u p f port"
  unfolding sendEnhancedEmail_def createEnhancedEmailMessage_def call_toUpperCase_def
    html_ignores_completion host_without_completion
  by (rule refl)

lemma run_ignores_completion:
  "process_recipients (rt\<lparr>completion := ord\<rparr>) e a rs = process_recipients rt e a rs"
proof -
  have "process_recipient (rt\<lparr>completion := ord\<rparr>) e a = process_recipient rt e a"
    unfolding process_recipient_def sms_ignores_completion email_ignores_completion
    by (rule refl)
  then show ?thesis by (simp add: process_recipients_def)
qed

subsection \<open>The aggregation\<close>

lemma deliveryErrors_rejections:
  "length results = length metas \<Longrightarrow> deliveryErrors results metas = rejections metas results"
proof (induction results metas rule: list_induct2)
  case Nil
  show ?case by (simp add: deliveryErrors_def)
next
  case (Cons r rs m ms)
  then show ?case by (cases r) (simp_all add: deliveryErrors_def rejected_error_def)
qed

lemma length_rejections:
  "length ts = length outs \<Longrightarrow>
   length (rejections ts outs) = length (filter (\<lambda>r. \<not> is_fulfilled r) outs)"
proof (induction ts outs rule: list_induct2)
  case Nil
  show ?case by simp
next
  case (Cons t ts r outs)
  then show ?case by (cases r) (simp_all add: is_fulfilled_def)
qed

lemma rejections_channel:
  "x \<in> set (rejections ts outs) \<Longrightarrow>
   \<exists>t\<in>set ts. error_entry.channel x = delivery_meta.channel t"
  by (induction ts outs rule: rejections.induct) (auto simp: rejected_error_def)

lemma serve_200:
  assumes "response (serve rt e req) = Some (Response200 rep)"
    and "body req = AlertRequest rs a"
  shows "report.errors rep
           = map (early_error e) (gated_tasks e rs)
             @ rejections (issued_tasks e rs)
                 (map outcome (deliveryTasks (process_recipients rt e a rs)))"
    and "report.sent rep
           = length (filter is_fulfilled (map outcome (deliveryTasks (process_recipients rt e a rs))))"
    and "report.failed rep = length (report.errors rep)"
    and "report.success rep = (report.failed rep = 0)"
proof -
  let ?st = "process_recipients rt e a rs"
  from assms obtain res where
    res: "allSettled (completion rt) (map outcome (deliveryTasks ?st)) = Some res"
    and rep: "rep =
      \<lparr>success = (length (earlyErrors ?st @ deliveryErrors res (deliveryMeta ?st)) = 0),
       sent = length (filter is_fulfilled res),
       failed = length (earlyErrors ?st @ deliveryErrors res (deliveryMeta ?st)),
       errors = earlyErrors ?st @ deliveryErrors res (deliveryMeta ?st),
       report.zone = (if truthy_value (alert.zone a) then alert.zone a else Text ''direct''),
       report.radius = alert.radius a,
       config = \<lparr>smsEnabled_flag = smsEnabled e, emailEnabled_flag = emailEnabled e\<rparr>,
       message = render (if truthy_value (alert.zone a) then alert.zone a else Text ''Direct'')
                 @ '' zone alert: '' @ show_nat (length (filter is_fulfilled res))
                 @ '' delivered, ''
                 @ show_nat (length (earlyErrors ?st @ deliveryErrors res (deliveryMeta ?st)))
                 @ '' failed''\<rparr>"
    by (auto simp: serve_def Let_def split: if_splits option.splits)
  from allSettled_Some[OF res] have r: "res = map outcome (deliveryTasks ?st)" .
  have "length res = length (deliveryMeta ?st)"
    by (simp add: r run_meta run_length)
  then have "deliveryErrors res (deliveryMeta ?st) = rejections (issued_tasks e rs) res"
    by (simp add: deliveryErrors_rejections run_meta)
  then show "report.errors rep
           = map (early_error e) (gated_tasks e rs)
             @ rejections (issued_tasks e rs) (map outcome (deliveryTasks ?st))"
    by (simp add: rep r run_early)
  show "report.sent rep = length (filter is_fulfilled (map outcome (deliveryTasks ?st)))"
    by (simp add: rep r)
  show "report.failed rep = length (report.errors rep)"
    by (simp add: rep)
  show "report.success rep = (report.failed rep = 0)"
    by (simp add: rep)
qed


lemma serve_settles:
  assumes "http_method req \<noteq> ''OPTIONS''" and "body req = AlertRequest rs a"
    and "{0..<length (issued_tasks e rs)} \<subseteq> set (completion rt)"
  shows "\<exists>rep. response (serve rt e req) = Some (Response200 rep)"
proof -
  have "{0..<length (map outcome (deliveryTasks (process_recipients rt e a rs)))}
          \<subseteq> set (completion rt)"
    using assms(3) by (simp add: run_length)
  from allSettled_complete[OF this] show ?thesis
    using assms(1,2) by (simp add: serve_def Let_def)
qed

lemma serve_fetched:
  assumes "body req = AlertRequest rs a" and "http_method req \<noteq> ''OPTIONS''"
  shows "fetched (serve rt e req) = concat (map issued (deliveryTasks (process_recipients rt e a rs)))"
  using assms by (simp add: serve_def Let_def)

lemmas eval_defs = serve_def process_recipients_def process_recipient_def allSettled_def
  deliveryErrors_def is_fulfilled_def smsEnabled_def emailEnabled_def missingTwilio_def
  missingSmtp_def truthy_def Let_def sendEnhancedSMS_def sendEnhancedEmail_def
  createEnhancedEmailMessage_def call_toUpperCase_def ok_def
  reason_text_def error_to_string_def smtpPort_def show_nat.simps digit_char_def

lemmas input_defs = demo_alert_def env_email_only_def env_sms_only_def env_full_def
  provider_rejects_def provider_accepts_def demo_btoa_def phone_only_def email_only_def phone_and_email_def
  scenario_B_def both_channels_def not_json_def numeric_language_def language_is_a_number_def
  zone_is_a_number_def env_unconfigured_def

lemmas task_defs = enumerate_tasks_def tasks_of_def gated_tasks_def issued_tasks_def
  early_error_def rejected_error_def

subsection \<open>The counts of the report\<close>

text \<open>
  C1. In every distribution run that answers with the report (status 200),
  \<open>sent + failed\<close> is the number of tasks enumerated, one per recipient and non-empty
  address; \<open>failed\<close> is the number of tasks failed early by a closed gate plus the
  number of rejected send operations; and \<open>errors\<close> has exactly \<open>failed\<close> entries.
\<close>

theorem report_counts:
  assumes "response (serve rt e req) = Some (Response200 rep)"
    and "body req = AlertRequest rs a"
  shows "report.sent rep + report.failed rep = length (enumerate_tasks rs)
       \<and> report.failed rep
           = length (gated_tasks e rs)
             + length (filter (\<lambda>p. \<not> is_fulfilled (outcome p))
                         (deliveryTasks (process_recipients rt e a rs)))
       \<and> length (report.errors rep) = report.failed rep"
proof -
  let ?outs = "map outcome (deliveryTasks (process_recipients rt e a rs))"
  note r = serve_200[OF assms]
  have len: "length (issued_tasks e rs) = length ?outs"
    by (simp add: run_length)
  have failed: "report.failed rep
      = length (gated_tasks e rs) + length (filter (\<lambda>r. \<not> is_fulfilled r) ?outs)"
    using r(1,3) length_rejections[OF len] by simp
  have "length (filter is_fulfilled ?outs) + length (filter (\<lambda>r. \<not> is_fulfilled r) ?outs)
        = length (issued_tasks e rs)"
    using sum_length_filter_compl[of is_fulfilled ?outs] len by simp
  then have total: "report.sent rep + report.failed rep = length (enumerate_tasks rs)"
    using failed r(2) split_tasks[of e rs] by simp
  have "length (filter (\<lambda>r. \<not> is_fulfilled r) ?outs)
        = length (filter (\<lambda>p. \<not> is_fulfilled (outcome p))
                    (deliveryTasks (process_recipients rt e a rs)))"
    by (simp add: filter_map comp_def)
  with failed total r(3) show ?thesis by simp
qed

lemma scenario_B_run:
  "response (serve provider_accepts env_email_only scenario_B) = Some (Response200 scenario_B_report)"
  by (simp add: eval_defs input_defs scenario_B_report_def)

theorem report_counts_witness:
  "response (serve provider_accepts env_email_only scenario_B) = Some (Response200 scenario_B_report)
   \<and> body scenario_B = AlertRequest [phone_only, email_only] demo_alert
   \<and> report.sent scenario_B_report + report.failed scenario_B_report
       = length (enumerate_tasks [phone_only, email_only])
   \<and> report.failed scenario_B_report
       = length (gated_tasks env_email_only [phone_only, email_only])
         + length (filter (\<lambda>p. \<not> is_fulfilled (outcome p))
             (deliveryTasks
                (process_recipients provider_accepts env_email_only demo_alert
                   [phone_only, email_only])))
   \<and> length (report.errors scenario_B_report) = report.failed scenario_B_report"
proof -
  have b: "body scenario_B = AlertRequest [phone_only, email_only] demo_alert"
    by (simp add: scenario_B_def)
  from report_counts[OF scenario_B_run b] scenario_B_run b show ?thesis
    by blast
qed

subsection \<open>Closed gates\<close>

lemma gate_closed_issued:
  assumes "\<not> channel_enabled e c"
  shows "filter (\<lambda>t. delivery_meta.channel t = c) (issued_tasks e rs) = []"
  using assms by (auto simp: issued_tasks_def filter_empty_conv)

lemma gate_closed_gated:
  assumes "\<not> channel_enabled e c"
  shows "filter (\<lambda>t. delivery_meta.channel t = c) (gated_tasks e rs)
           = filter (\<lambda>t. delivery_meta.channel t = c) (enumerate_tasks rs)"
  using assms by (auto simp: gated_tasks_def intro: filter_cong)



lemma early_error_channel:
  "filter (\<lambda>x. error_entry.channel x = c) (map (early_error e) ts)
     = map (early_error e) (filter (\<lambda>t. delivery_meta.channel t = c) ts)"
  by (induction ts) (simp_all add: early_error_def)

lemma rejections_no_channel:
  assumes "filter (\<lambda>t. delivery_meta.channel t = c) ts = []"
  shows "filter (\<lambda>x. error_entry.channel x = c) (rejections ts outs) = []"
proof -
  have "error_entry.channel x \<noteq> c" if "x \<in> set (rejections ts outs)" for x
    using rejections_channel[OF that] assms by (auto simp: filter_empty_conv)
  then show ?thesis by (auto simp: filter_empty_conv)
qed

lemma only_sms_fetches:
  assumes "list_all2 (paired rt e a) ps ts"
    and "filter (\<lambda>t. delivery_meta.channel t = SMS) ts = []"
  shows "concat (map issued ps) = []"
  using assms
proof (induction ps ts rule: list_all2_induct)
  case Nil
  show ?case by simp
next
  case (Cons p ps t ts)
  from Cons.prems have t: "delivery_meta.channel t = Email" and rest: "filter (\<lambda>t. delivery_meta.channel t = SMS) ts = []"
    by (auto split: if_splits intro: channel.exhaust)
  from Cons.hyps(1) t have "issued p = []"
    by (simp add: paired_def sendEnhancedEmail_def split: sum.splits)
  with Cons.IH[OF rest] show ?case by simp
qed

lemma truthy_set: "truthy v \<longleftrightarrow> \<not> unset_or_empty v"
  by (cases v) (simp_all add: truthy_def unset_or_empty_def)

lemma flag_is_gate: "channel_enabled e c \<longleftrightarrow> \<not> gate_closed e c"
  by (cases c)
    (auto simp: smsEnabled_def emailEnabled_def missingTwilio_def missingSmtp_def gate_closed_def
      settings_def truthy_set)

lemma missing_is_unset: "missing e c = unset_settings e c"
  by (cases c) (simp_all add: missingTwilio_def missingSmtp_def unset_settings_def settings_def truthy_set)

lemma addresses_of_tasks:
  "map delivery_meta.recipient (filter (\<lambda>t. delivery_meta.channel t = c) (enumerate_tasks rs))
     = addresses_on c rs"
proof (induction rs)
  case Nil
  show ?case by (simp add: enumerate_tasks_def addresses_on_def)
next
  case (Cons r rs)
  have "map delivery_meta.recipient (filter (\<lambda>t. delivery_meta.channel t = c) (tasks_of r))
        = (case (case c of SMS \<Rightarrow> recipient.phone r | Email \<Rightarrow> recipient.email r) of
             None \<Rightarrow> [] | Some address \<Rightarrow> if address = [] then [] else [address])"
    by (cases c; cases "recipient.phone r"; cases "recipient.email r")
      (simp_all add: tasks_of_def truthy_def Let_def)
  with Cons show ?case
    by (simp add: enumerate_tasks_def addresses_on_def)
qed

lemma gated_entries:
  "map (early_error e) (filter (\<lambda>t. delivery_meta.channel t = c) (enumerate_tasks rs))
     = map (gated_entry e c) (addresses_on c rs)"
proof -
  have "map (early_error e) (filter (\<lambda>t. delivery_meta.channel t = c) ts)
        = map (gated_entry e c) (map delivery_meta.recipient (filter (\<lambda>t. delivery_meta.channel t = c) ts))"
    for ts
    by (induction ts) (simp_all add: early_error_def gated_entry_def missing_is_unset)
  then show ?thesis
    by (simp only: addresses_of_tasks)
qed

text \<open>
  C5. A channel's gate is closed exactly when one of its settings is unset or empty
  (three for SMS, four for email); the function's flag for the channel is then off. In a
  run with a closed gate, no send operation is started for a task on that channel: the
  started operations belong one to one to the tasks on open channels, and with the SMS
  gate closed the run makes no network request at all. Every task on the closed channel is
  recorded in the loop as a failed outcome, with the channel, the address, and the reason
  \<open>SMS service not configured: \<close> or \<open>Email service not configured: \<close> followed by the names
  of the settings that are unset or empty. Once the started operations have settled, the
  function answers with the report, and the report's entries for the closed channel are
  these outcomes, one per task, in the order of the recipients.
\<close>

theorem closed_gate_fails_fast:
  assumes "body req = AlertRequest rs a"
    and "http_method req \<noteq> ''OPTIONS''"
    and "gate_closed e c"
  shows "(gate_closed e SMS \<longleftrightarrow>
            unset_or_empty (TWILIO_ACCOUNT_SID e) \<or> unset_or_empty (TWILIO_AUTH_TOKEN e)
            \<or> unset_or_empty (TWILIO_PHONE_NUMBER e))
       \<and> (gate_closed e Email \<longleftrightarrow>
            unset_or_empty (SMTP_HOST e) \<or> unset_or_empty (SMTP_USER e)
            \<or> unset_or_empty (SMTP_PASS e) \<or> unset_or_empty (FROM_EMAIL e))
       \<and> \<not> channel_enabled e c
       \<and> list_all2 (paired rt e a) (deliveryTasks (process_recipients rt e a rs)) (issued_tasks e rs)
       \<and> filter (\<lambda>t. delivery_meta.channel t = c) (issued_tasks e rs) = []
       \<and> (c = SMS \<longrightarrow> fetched (serve rt e req) = [])
       \<and> filter (\<lambda>x. error_entry.channel x = c) (earlyErrors (process_recipients rt e a rs))
           = map (gated_entry e c) (addresses_on c rs)
       \<and> ({0..<length (issued_tasks e rs)} \<subseteq> set (completion rt) \<longrightarrow>
            (\<exists>rep. response (serve rt e req) = Some (Response200 rep)
               \<and> filter (\<lambda>x. error_entry.channel x = c) (report.errors rep)
                   = map (gated_entry e c) (addresses_on c rs)
               \<and> length (addresses_on c rs) \<le> report.failed rep))
       \<and> (\<forall>rep. response (serve rt e req) = Some (Response200 rep) \<longrightarrow>
             filter (\<lambda>x. error_entry.channel x = c) (report.errors rep)
               = map (gated_entry e c) (addresses_on c rs))"
proof -
  let ?st = "process_recipients rt e a rs"
  have sms: "gate_closed e SMS \<longleftrightarrow>
      unset_or_empty (TWILIO_ACCOUNT_SID e) \<or> unset_or_empty (TWILIO_AUTH_TOKEN e)
      \<or> unset_or_empty (TWILIO_PHONE_NUMBER e)"
    by (simp add: gate_closed_def settings_def)
  have mail: "gate_closed e Email \<longleftrightarrow>
      unset_or_empty (SMTP_HOST e) \<or> unset_or_empty (SMTP_USER e)
      \<or> unset_or_empty (SMTP_PASS e) \<or> unset_or_empty (FROM_EMAIL e)"
    by (auto simp: gate_closed_def settings_def)
  have off: "\<not> channel_enabled e c"
    using assms(3) by (simp add: flag_is_gate)
  note none = gate_closed_issued[OF off, of rs]
  have fetched: "c = SMS \<longrightarrow> fetched (serve rt e req) = []"
    using only_sms_fetches[OF run_paired[of rt e a rs]] none
    by (auto simp: serve_fetched[OF assms(1,2)])
  have early: "filter (\<lambda>x. error_entry.channel x = c) (earlyErrors ?st)
      = map (gated_entry e c) (addresses_on c rs)"
    by (simp add: run_early early_error_channel gate_closed_gated[OF off] gated_entries)
  have entries: "filter (\<lambda>x. error_entry.channel x = c) (report.errors rep)
      = map (gated_entry e c) (addresses_on c rs)"
    if "response (serve rt e req) = Some (Response200 rep)" for rep
    using serve_200(1)[OF that assms(1)] rejections_no_channel[OF none]
    by (simp add: early_error_channel gate_closed_gated[OF off] gated_entries)
  have settled: "\<exists>rep. response (serve rt e req) = Some (Response200 rep)
               \<and> filter (\<lambda>x. error_entry.channel x = c) (report.errors rep)
                   = map (gated_entry e c) (addresses_on c rs)
               \<and> length (addresses_on c rs) \<le> report.failed rep"
    if "{0..<length (issued_tasks e rs)} \<subseteq> set (completion rt)"
  proof -
    from serve_settles[OF assms(2,1) that] obtain rep
      where rep: "response (serve rt e req) = Some (Response200 rep)" ..
    have "length (filter (\<lambda>x. error_entry.channel x = c) (report.errors rep))
          \<le> length (report.errors rep)"
      by (rule length_filter_le)
    then have "length (addresses_on c rs) \<le> report.failed rep"
      by (simp add: entries[OF rep] serve_200(3)[OF rep assms(1)])
    with rep entries[OF rep] show ?thesis by blast
  qed
  from sms mail off none fetched early settled entries run_paired[of rt e a rs] show ?thesis
    by blast
qed

lemma unconfigured_run:
  "response (serve (provider_accepts\<lparr>completion := []\<rparr>) env_unconfigured both_channels)
     = Some (Response200
         \<lparr>success = False, sent = 0, failed = 2,
          errors =
            [\<lparr>error_entry.channel = SMS, error_entry.recipient = ''+911'',
              error_entry.language = None,
              reason = ''SMS service not configured: TWILIO_ACCOUNT_SID, TWILIO_AUTH_TOKEN, TWILIO_PHONE_NUMBER''\<rparr>,
             \<lparr>error_entry.channel = Email, error_entry.recipient = ''a@example.org'',
              error_entry.language = None,
              reason = ''Email service not configured: SMTP_HOST, FROM_EMAIL, SMTP_USER, SMTP_PASS''\<rparr>],
          report.zone = Text ''direct'', report.radius = Undefined,
          config = \<lparr>smsEnabled_flag = False, emailEnabled_flag = False\<rparr>,
          message = ''Direct zone alert: 0 delivered, 2 failed''\<rparr>)"
  by (simp add: eval_defs input_defs)

lemma email_gate_closed_run:
  "response (serve provider_rejects env_sms_only both_channels)
     = Some (Response200
         \<lparr>success = False, sent = 0, failed = 2,
          errors =
            [\<lparr>error_entry.channel = Email, error_entry.recipient = ''a@example.org'',
              error_entry.language = None, reason = ''Email service not configured: SMTP_HOST''\<rparr>,
             \<lparr>error_entry.channel = SMS, error_entry.recipient = ''+911'',
              error_entry.language = Some (Text ''en''), reason = ''SMS delivery failed: 500 down''\<rparr>],
          report.zone = Text ''direct'', report.radius = Undefined,
          config = \<lparr>smsEnabled_flag = True, emailEnabled_flag = False\<rparr>,
          message = ''Direct zone alert: 0 delivered, 2 failed''\<rparr>)"
  by (simp add: eval_defs input_defs)

lemma sms_gate_closed_run:
  "response (serve provider_accepts env_email_only scenario_B)
     = Some (Response200
         \<lparr>success = False, sent = 1, failed = 1,
          errors = [\<lparr>error_entry.channel = SMS, error_entry.recipient = ''+911'',
                     error_entry.language = None,
                     reason = ''SMS service not configured: TWILIO_ACCOUNT_SID''\<rparr>],
          report.zone = Text ''direct'', report.radius = Undefined,
          config = \<lparr>smsEnabled_flag = False, emailEnabled_flag = True\<rparr>,
          message = ''Direct zone alert: 1 delivered, 1 failed''\<rparr>)"
  by (simp add: eval_defs input_defs)

theorem closed_gate_fails_fast_witness:
  "body scenario_B = AlertRequest [phone_only, email_only] demo_alert
   \<and> http_method scenario_B \<noteq> ''OPTIONS''
   \<and> gate_closed env_email_only SMS
   \<and> \<not> channel_enabled env_email_only SMS
   \<and> fetched (serve provider_accepts env_email_only scenario_B) = []
   \<and> response (serve provider_accepts env_email_only scenario_B)
       = Some (Response200
           \<lparr>success = False, sent = 1, failed = 1,
            errors = [\<lparr>error_entry.channel = SMS, error_entry.recipient = ''+911'',
                       error_entry.language = None,
                       reason = ''SMS service not configured: TWILIO_ACCOUNT_SID''\<rparr>],
            report.zone = Text ''direct'', report.radius = Undefined,
            config = \<lparr>smsEnabled_flag = False, emailEnabled_flag = True\<rparr>,
            message = ''Direct zone alert: 1 delivered, 1 failed''\<rparr>)
   \<and> map (gated_entry env_email_only SMS) (addresses_on SMS [phone_only, email_only])
       = [\<lparr>error_entry.channel = SMS, error_entry.recipient = ''+911'',
           error_entry.language = None,
           reason = ''SMS service not configured: TWILIO_ACCOUNT_SID''\<rparr>]
   \<and> body both_channels = AlertRequest [phone_and_email] demo_alert
   \<and> http_method both_channels \<noteq> ''OPTIONS''
   \<and> gate_closed env_sms_only Email
   \<and> filter (\<lambda>t. delivery_meta.channel t = Email) (issued_tasks env_sms_only [phone_and_email]) = []
   \<and> response (serve provider_rejects env_sms_only both_channels)
       = Some (Response200
           \<lparr>success = False, sent = 0, failed = 2,
            errors =
              [\<lparr>error_entry.channel = Email, error_entry.recipient = ''a@example.org'',
                error_entry.language = None, reason = ''Email service not configured: SMTP_HOST''\<rparr>,
               \<lparr>error_entry.channel = SMS, error_entry.recipient = ''+911'',
                error_entry.language = Some (Text ''en''), reason = ''SMS delivery failed: 500 down''\<rparr>],
            report.zone = Text ''direct'', report.radius = Undefined,
            config = \<lparr>smsEnabled_flag = True, emailEnabled_flag = False\<rparr>,
            message = ''Direct zone alert: 0 delivered, 2 failed''\<rparr>)
   \<and> map (gated_entry env_sms_only Email) (addresses_on Email [phone_and_email])
       = [\<lparr>error_entry.channel = Email, error_entry.recipient = ''a@example.org'',
           error_entry.language = None, reason = ''Email service not configured: SMTP_HOST''\<rparr>]
   \<and> gate_closed env_unconfigured SMS
   \<and> gate_closed env_unconfigured Email
   \<and> {0..<length (issued_tasks env_unconfigured [phone_and_email])} \<subseteq> set []
   \<and> fetched (serve (provider_accepts\<lparr>completion := []\<rparr>) env_unconfigured both_channels) = []
   \<and> response (serve (provider_accepts\<lparr>completion := []\<rparr>) env_unconfigured both_channels)
       = Some (Response200
           \<lparr>success = False, sent = 0, failed = 2,
            errors =
              [\<lparr>error_entry.channel = SMS, error_entry.recipient = ''+911'',
                error_entry.language = None,
                reason = ''SMS service not configured: TWILIO_ACCOUNT_SID, TWILIO_AUTH_TOKEN, TWILIO_PHONE_NUMBER''\<rparr>,
               \<lparr>error_entry.channel = Email, error_entry.recipient = ''a@example.org'',
                error_entry.language = None,
                reason = ''Email service not configured: SMTP_HOST, FROM_EMAIL, SMTP_USER, SMTP_PASS''\<rparr>],
            report.zone = Text ''direct'', report.radius = Undefined,
            config = \<lparr>smsEnabled_flag = False, emailEnabled_flag = False\<rparr>,
            message = ''Direct zone alert: 0 delivered, 2 failed''\<rparr>)"
proof -
  have b: "body scenario_B = AlertRequest [phone_only, email_only] demo_alert"
    and m: "http_method scenario_B \<noteq> ''OPTIONS''"
    by (simp_all add: scenario_B_def)
  have g: "gate_closed env_email_only SMS"
    by (simp add: gate_closed_def settings_def unset_or_empty_def env_email_only_def)
  have v: "map (gated_entry env_email_only SMS) (addresses_on SMS [phone_only, email_only])
       = [\<lparr>error_entry.channel = SMS, error_entry.recipient = ''+911'',
           error_entry.language = None,
           reason = ''SMS service not configured: TWILIO_ACCOUNT_SID''\<rparr>]"
    by (simp add: gated_entry_def addresses_on_def unset_settings_def settings_def unset_or_empty_def
        input_defs)
  have b': "body both_channels = AlertRequest [phone_and_email] demo_alert"
    and m': "http_method both_channels \<noteq> ''OPTIONS''"
    by (simp_all add: both_channels_def)
  have g': "gate_closed env_sms_only Email"
    by (simp add: gate_closed_def settings_def unset_or_empty_def env_sms_only_def)
  have v': "map (gated_entry env_sms_only Email) (addresses_on Email [phone_and_email])
       = [\<lparr>error_entry.channel = Email, error_entry.recipient = ''a@example.org'',
           error_entry.language = None, reason = ''Email service not configured: SMTP_HOST''\<rparr>]"
    by (simp add: gated_entry_def addresses_on_def unset_settings_def settings_def unset_or_empty_def
        input_defs)
  have g1: "gate_closed env_unconfigured SMS" and g2: "gate_closed env_unconfigured Email"
    by (simp_all add: gate_closed_def settings_def unset_or_empty_def env_unconfigured_def)
  have n: "{0..<length (issued_tasks env_unconfigured [phone_and_email])} \<subseteq> set []"
    by (simp add: task_defs input_defs smsEnabled_def emailEnabled_def missingTwilio_def
        missingSmtp_def truthy_def Let_def)
  have off: "\<not> channel_enabled env_email_only SMS"
    and quiet: "fetched (serve provider_accepts env_email_only scenario_B) = []"
    using closed_gate_fails_fast[OF b m g, of provider_accepts] by blast+
  have none: "filter (\<lambda>t. delivery_meta.channel t = Email) (issued_tasks env_sms_only [phone_and_email]) = []"
    using closed_gate_fails_fast[OF b' m' g', of provider_rejects] by blast
  have quiet': "fetched (serve (provider_accepts\<lparr>completion := []\<rparr>) env_unconfigured both_channels) = []"
    using closed_gate_fails_fast[OF b' m' g1, of "provider_accepts\<lparr>completion := []\<rparr>"] by blast
  show ?thesis
    by (intro conjI b m g off quiet sms_gate_closed_run v b' m' g' none email_gate_closed_run v'
        g1 g2 n quiet' unconfigured_run)
qed

subsection \<open>Email operations\<close>












subsection \<open>The order of the error entries\<close>

lemma enumeration_order_no_gated:
  assumes "filter (\<lambda>t. \<not> channel_enabled e (delivery_meta.channel t)) ts = []"
    and "length outs = length ts"
  shows "errors_in_enumeration_order e ts outs = rejections ts outs"
  using assms
proof (induction ts arbitrary: outs)
  case Nil
  show ?case by simp
next
  case (Cons t ts)
  from Cons.prems(2) obtain out outs' where outs: "outs = out # outs'" "length outs' = length ts"
    by (cases outs) auto
  from Cons.prems(1) have en: "channel_enabled e (delivery_meta.channel t)"
    and rest: "filter (\<lambda>t. \<not> channel_enabled e (delivery_meta.channel t)) ts = []"
    by (auto split: if_splits)
  from Cons.IH[OF rest outs(2)] en outs(1) show ?case
    by (cases out) simp_all
qed

lemma enumeration_order_no_rejected:
  assumes "list_all is_fulfilled outs"
  shows "errors_in_enumeration_order e ts outs
           = map (early_error e) (filter (\<lambda>t. \<not> channel_enabled e (delivery_meta.channel t)) ts)"
  using assms
proof (induction ts arbitrary: outs)
  case Nil
  show ?case by simp
next
  case (Cons t ts)
  show ?case
  proof (cases outs)
    case Nil
    with Cons.IH[of "[]"] show ?thesis by simp
  next
    case (Cons out outs')
    with Cons.prems have hd: "is_fulfilled out" and tl: "list_all is_fulfilled outs'"
      by simp_all
    from hd obtain v where v: "out = Fulfilled v"
      by (cases out) (simp_all add: is_fulfilled_def)
    from Cons.IH[OF tl] Cons.IH[OF Cons.prems] Cons v show ?thesis
      by simp
  qed
qed

text \<open>
  C7, as the code has it. The \<open>errors\<close> of the report hold one entry per failed task:
  first the entries of the tasks failed early by a closed gate, in the order of
  enumeration, then the entries of the rejected send operations, in the order of
  enumeration. This is the order of enumeration of all failed tasks when no send is
  rejected, and when no task is gated.
\<close>

theorem errors_early_then_rejected:
  assumes "response (serve rt e req) = Some (Response200 rep)"
    and "body req = AlertRequest rs a"
  shows "report.errors rep
           = map (early_error e) (gated_tasks e rs)
             @ rejections (issued_tasks e rs)
                 (map outcome (deliveryTasks (process_recipients rt e a rs)))
       \<and> (list_all is_fulfilled (map outcome (deliveryTasks (process_recipients rt e a rs)))
            \<longrightarrow> report.errors rep
                  = errors_in_enumeration_order e (enumerate_tasks rs)
                      (map outcome (deliveryTasks (process_recipients rt e a rs))))
       \<and> (gated_tasks e rs = []
            \<longrightarrow> report.errors rep
                  = errors_in_enumeration_order e (enumerate_tasks rs)
                      (map outcome (deliveryTasks (process_recipients rt e a rs))))"
proof -
  let ?outs = "map outcome (deliveryTasks (process_recipients rt e a rs))"
  note eq = serve_200(1)[OF assms]
  have len: "length ?outs = length (issued_tasks e rs)"
    by (simp add: run_length)
  have a: "report.errors rep = errors_in_enumeration_order e (enumerate_tasks rs) ?outs"
    if "list_all is_fulfilled ?outs"
  proof -
    from that have "length (filter (\<lambda>r. \<not> is_fulfilled r) ?outs) = 0"
      by (simp add: list_all_iff filter_empty_conv)
    then have "rejections (issued_tasks e rs) ?outs = []"
      using length_rejections[of "issued_tasks e rs" ?outs] len by simp
    with eq enumeration_order_no_rejected[OF that, of e "enumerate_tasks rs"] show ?thesis
      by (simp add: gated_tasks_def)
  qed
  have b: "report.errors rep = errors_in_enumeration_order e (enumerate_tasks rs) ?outs"
    if "gated_tasks e rs = []"
  proof -
    from that have none: "filter (\<lambda>t. \<not> channel_enabled e (delivery_meta.channel t)) (enumerate_tasks rs) = []"
      by (simp add: gated_tasks_def)
    then have all: "issued_tasks e rs = enumerate_tasks rs"
      by (auto simp: issued_tasks_def filter_empty_conv)
    from enumeration_order_no_gated[OF none, of ?outs] len all eq that show ?thesis
      by simp
  qed
  from eq a b show ?thesis by blast
qed

lemma rejected_run:
  "response (serve provider_rejects env_sms_only both_channels)
     = Some (Response200
         \<lparr>success = False, sent = 0, failed = 2,
          errors = [gated_email_entry, rejected_sms_entry],
          report.zone = Text ''direct'', report.radius = Undefined,
          config = \<lparr>smsEnabled_flag = True, emailEnabled_flag = False\<rparr>,
          message = ''Direct zone alert: 0 delivered, 2 failed''\<rparr>)"
  by (simp add: eval_defs input_defs gated_email_entry_def rejected_sms_entry_def)

theorem errors_early_then_rejected_witness:
  "body both_channels = AlertRequest [phone_and_email] demo_alert
   \<and> map_option report.errors (report_of (serve provider_rejects env_sms_only both_channels))
       = Some [gated_email_entry, rejected_sms_entry]
   \<and> [gated_email_entry, rejected_sms_entry]
       = map (early_error env_sms_only) (gated_tasks env_sms_only [phone_and_email])
         @ rejections (issued_tasks env_sms_only [phone_and_email])
             (map outcome
                (deliveryTasks
                   (process_recipients provider_rejects env_sms_only demo_alert [phone_and_email])))"
proof -
  have b: "body both_channels = AlertRequest [phone_and_email] demo_alert"
    by (simp add: both_channels_def)
  from errors_early_then_rejected[OF rejected_run b] rejected_run b show ?thesis
    by (simp add: report_of_def)
qed

text \<open>
  C7, as the specification states it, fails: with SMS configured and the email gate closed,
  a recipient with both addresses whose SMS the provider rejects is reported with the
  Email entry before the SMS entry, while the tasks were enumerated SMS first.
\<close>

theorem errors_enumeration_order_counterexample:
  "map_option report.errors (report_of (serve provider_rejects env_sms_only both_channels))
     = Some [gated_email_entry, rejected_sms_entry]
   \<and> errors_in_enumeration_order env_sms_only (enumerate_tasks [phone_and_email])
       (map outcome
          (deliveryTasks
             (process_recipients provider_rejects env_sms_only demo_alert [phone_and_email])))
     = [rejected_sms_entry, gated_email_entry]
   \<and> [gated_email_entry, rejected_sms_entry] \<noteq> [rejected_sms_entry, gated_email_entry]"
proof -
  have "map_option report.errors (report_of (serve provider_rejects env_sms_only both_channels))
     = Some [gated_email_entry, rejected_sms_entry]"
    by (simp add: rejected_run report_of_def)
  moreover have "errors_in_enumeration_order env_sms_only (enumerate_tasks [phone_and_email])
       (map outcome
          (deliveryTasks
             (process_recipients provider_rejects env_sms_only demo_alert [phone_and_email])))
     = [rejected_sms_entry, gated_email_entry]"
    by (simp add: eval_defs input_defs task_defs gated_email_entry_def rejected_sms_entry_def)
  moreover have "[gated_email_entry, rejected_sms_entry] \<noteq> [rejected_sms_entry, gated_email_entry]"
    by (simp add: gated_email_entry_def rejected_sms_entry_def)
  ultimately show ?thesis by blast
qed

subsection \<open>Success, partial failure and the failure response\<close>



subsection \<open>Independence of the completion order\<close>

text \<open>
  C9, as the code has it. Two runs on the same request and configuration, with the same
  answers of the provider to each send operation, give the same response and issue the
  same requests, in whatever order their send operations settle.
\<close>

theorem report_independent_of_completion_order:
  assumes "response (serve (rt\<lparr>completion := order1\<rparr>) e req) = Some r1"
    and "response (serve (rt\<lparr>completion := order2\<rparr>) e req) = Some r2"
  shows "r1 = r2
       \<and> fetched (serve (rt\<lparr>completion := order1\<rparr>) e req)
           = fetched (serve (rt\<lparr>completion := order2\<rparr>) e req)"
proof (cases "http_method req = ''OPTIONS''")
  case True
  with assms show ?thesis by (simp add: serve_def)
next
  case False
  show ?thesis
  proof (cases "body req")
    case (Malformed err)
    with assms False show ?thesis by (simp add: serve_def)
  next
    case (AlertRequest rs a)
    let ?outs = "map outcome (deliveryTasks (process_recipients rt e a rs))"
    from assms(1) AlertRequest False obtain res1
      where s1: "allSettled order1 ?outs = Some res1"
      by (auto simp: serve_def Let_def run_ignores_completion split: option.splits)
    from assms(2) AlertRequest False obtain res2
      where s2: "allSettled order2 ?outs = Some res2"
      by (auto simp: serve_def Let_def run_ignores_completion split: option.splits)
    from allSettled_Some[OF s1] allSettled_Some[OF s2] s1 s2
    have "allSettled order1 ?outs = allSettled order2 ?outs"
      by simp
    then have "serve (rt\<lparr>completion := order1\<rparr>) e req = serve (rt\<lparr>completion := order2\<rparr>) e req"
      using AlertRequest False by (simp add: serve_def Let_def run_ignores_completion)
    with assms show ?thesis by simp
  qed
qed

lemma accepted_run:
  "response (serve (provider_accepts\<lparr>completion := [0, 1]\<rparr>) env_full both_channels)
     = Some (Response200
         \<lparr>success = True, sent = 2, failed = 0, errors = [],
          report.zone = Text ''direct'', report.radius = Undefined,
          config = \<lparr>smsEnabled_flag = True, emailEnabled_flag = True\<rparr>,
          message = ''Direct zone alert: 2 delivered, 0 failed''\<rparr>)"
  by (simp add: eval_defs input_defs)

lemma accepted_run_reordered:
  "response (serve (provider_accepts\<lparr>completion := [1, 0, 1]\<rparr>) env_full both_channels)
     = Some (Response200
         \<lparr>success = True, sent = 2, failed = 0, errors = [],
          report.zone = Text ''direct'', report.radius = Undefined,
          config = \<lparr>smsEnabled_flag = True, emailEnabled_flag = True\<rparr>,
          message = ''Direct zone alert: 2 delivered, 0 failed''\<rparr>)"
  by (simp add: eval_defs input_defs)

theorem report_independent_of_completion_order_witness:
  "response (serve (provider_accepts\<lparr>completion := [0, 1]\<rparr>) env_full both_channels)
     = response (serve (provider_accepts\<lparr>completion := [1, 0, 1]\<rparr>) env_full both_channels)
   \<and> response (serve (provider_accepts\<lparr>completion := [0, 1]\<rparr>) env_full both_channels) \<noteq> None
   \<and> fetched (serve (provider_accepts\<lparr>completion := [0, 1]\<rparr>) env_full both_channels)
       = fetched (serve (provider_accepts\<lparr>completion := [1, 0, 1]\<rparr>) env_full both_channels)"
proof -
  from report_independent_of_completion_order[OF accepted_run accepted_run_reordered]
    accepted_run accepted_run_reordered
  show ?thesis by simp
qed

text \<open>
  C9, as the specification states it, fails: the counts depend on the provider's answers,
  not only on the recipients, the alert and the configuration. The same request under the
  same configuration has two deliveries when the provider accepts the SMS and one when it
  rejects it.
\<close>

theorem same_inputs_different_counts_counterexample:
  "map_option report.sent (report_of (serve provider_accepts env_full both_channels)) = Some 2
   \<and> map_option report.failed (report_of (serve provider_accepts env_full both_channels)) = Some 0
   \<and> map_option report.sent (report_of (serve provider_rejects env_full both_channels)) = Some 1
   \<and> map_option report.failed (report_of (serve provider_rejects env_full both_channels)) = Some 1"
  by (simp add: eval_defs input_defs report_of_def)

section \<open>Properties of the zone classification\<close>

subsection \<open>Comparisons\<close>

lemma not_le_iff: "\<not> number_le d (Finite k) \<longleftrightarrow> number_gt d (Finite k) \<or> d = NaN"
  by (cases d) (auto simp: number_le_def number_gt_def)

lemma gt_iff: "number_gt d (Finite k) \<longleftrightarrow> \<not> number_le d (Finite k) \<and> d \<noteq> NaN"
  by (cases d) (auto simp: number_le_def number_gt_def)

lemma le_mono: "number_le d (Finite j) \<Longrightarrow> j \<le> k \<Longrightarrow> number_le d (Finite k)"
  by (cases d) (auto simp: number_le_def)

lemma le_not_nan: "number_le d k \<Longrightarrow> d \<noteq> NaN"
  by (auto simp: number_le_def)

subsection \<open>The loop of \<open>getAlertZones\<close>\<close>

lemma classify_loop:
  "immediate (foldl (classify m ep) z cs)
     = immediate z
       @ filter (\<lambda>c. number_le (calculateDistance m ep (LocationInfo.coordinates c)) (Finite 5)) cs
   \<and> nearby (foldl (classify m ep) z cs)
     = nearby z
       @ filter (\<lambda>c. number_gt (calculateDistance m ep (LocationInfo.coordinates c)) (Finite 5)
                     \<and> number_le (calculateDistance m ep (LocationInfo.coordinates c)) (Finite 25)) cs
   \<and> regional (foldl (classify m ep) z cs)
     = regional z
       @ filter (\<lambda>c. number_gt (calculateDistance m ep (LocationInfo.coordinates c)) (Finite 25)
                     \<and> number_le (calculateDistance m ep (LocationInfo.coordinates c)) (Finite 100)) cs"
proof (induction cs arbitrary: z)
  case Nil
  show ?case by simp
next
  case (Cons c cs)
  have up: "number_le d (Finite 5) \<Longrightarrow> number_le d (Finite 25)"
    "number_le d (Finite 25) \<Longrightarrow> number_le d (Finite 100)" for d
    by (erule le_mono, simp)+
  from Cons.IH[of "classify m ep z c"] show ?case
    by (auto simp: classify_def Let_def gt_iff dest: up le_not_nan)
qed

lemma zones_are_filters:
  "immediate (getAlertZones m ep)
     = filter (\<lambda>c. number_le (calculateDistance m ep (LocationInfo.coordinates c)) (Finite 5))
         (getMajorIndianCities m)"
  "nearby (getAlertZones m ep)
     = filter (\<lambda>c. number_gt (calculateDistance m ep (LocationInfo.coordinates c)) (Finite 5)
                   \<and> number_le (calculateDistance m ep (LocationInfo.coordinates c)) (Finite 25))
         (getMajorIndianCities m)"
  "regional (getAlertZones m ep)
     = filter (\<lambda>c. number_gt (calculateDistance m ep (LocationInfo.coordinates c)) (Finite 25)
                   \<and> number_le (calculateDistance m ep (LocationInfo.coordinates c)) (Finite 100))
         (getMajorIndianCities m)"
  using classify_loop[of m ep "\<lparr>immediate = [], nearby = [], regional = []\<rparr>" "getMajorIndianCities m"]
  by (simp_all add: getAlertZones_def)

subsection \<open>The distance under exact arithmetic\<close>

lemma haversine_term_in_range:
  fixes p q v :: real
  defines "a \<equiv> sin ((q - p) / 2) * sin ((q - p) / 2) + cos p * cos q * sin v * sin v"
  shows "0 \<le> a \<and> a \<le> 1"
proof -
  define u where "u = (q - p) / 2"
  define s where "s = sin v * sin v"
  define k where "k = cos p * cos q"
  have s: "0 \<le> s" "s \<le> 1"
  proof -
    show "0 \<le> s" by (simp add: s_def)
    have "s = 1 - cos v * cos v"
      using sin_cos_squared_add[of v] by (simp add: s_def power2_eq_square)
    then show "s \<le> 1" by simp
  qed
  have "cos (q - p) + cos (q + p) = 2 * k"
    by (simp add: cos_add cos_diff k_def)
  moreover have "cos (q - p) = 1 - 2 * (sin u * sin u)"
  proof -
    have "q - p = 2 * u" by (simp add: u_def)
    then show ?thesis
      using cos_double_sin[of u] by (simp add: power2_eq_square)
  qed
  ultimately have k: "k = (1 + cos (q + p)) / 2 - sin u * sin u"
    by (simp add: field_simps)
  have su: "0 \<le> sin u * sin u" by simp
  have cu: "cos u * cos u = 1 - sin u * sin u"
    using sin_cos_squared_add[of u] by (simp add: power2_eq_square)
  have "0 \<le> 1 + cos (q + p)"
    using cos_ge_minus_one[of "q + p"] by linarith
  then have "0 \<le> (1 + cos (q + p)) / 2" and "(1 + cos (q + p)) / 2 \<le> 1"
    by simp_all
  then have lo: "- (sin u * sin u) \<le> k" and hi: "k \<le> 1 - sin u * sin u"
    unfolding k by simp_all
  have a: "a = sin u * sin u + k * s"
    by (simp add: a_def u_def s_def k_def mult.assoc)
  have "- (sin u * sin u) * s \<le> k * s"
    using lo s(1) by (rule mult_right_mono)
  moreover have "(sin u * sin u) * s \<le> sin u * sin u"
    using su s by (simp add: mult_left_le)
  ultimately have "0 \<le> a" by (simp add: a)
  have "k * s \<le> (1 - sin u * sin u) * s"
    using hi s(1) by (rule mult_right_mono)
  moreover have "(1 - sin u * sin u) * s \<le> 1 - sin u * sin u"
    using cu s by (metis mult_left_le zero_le_square)
  ultimately have "a \<le> 1" by (simp add: a)
  with \<open>0 \<le> a\<close> show ?thesis by simp
qed

lemma haversine_sum_in_range:
  "0 \<le> haversine_sum lat1 lng1 lat2 lng2" "haversine_sum lat1 lng1 lat2 lng2 \<le> 1"
proof -
  have "radians (lat2 - lat1) = radians lat2 - radians lat1"
    by (simp add: radians_def left_diff_distrib)
  then have "haversine_sum lat1 lng1 lat2 lng2
      = sin ((radians lat2 - radians lat1) / 2) * sin ((radians lat2 - radians lat1) / 2)
        + cos (radians lat1) * cos (radians lat2)
          * sin (radians (lng2 - lng1) / 2) * sin (radians (lng2 - lng1) / 2)"
    by (simp add: haversine_sum_def haversine_def mult.assoc)
  with haversine_term_in_range[where p = "radians lat1" and q = "radians lat2"
      and v = "radians (lng2 - lng1) / 2"]
  show "0 \<le> haversine_sum lat1 lng1 lat2 lng2" "haversine_sum lat1 lng1 lat2 lng2 \<le> 1"
    by simp_all
qed

lemma exact_ops:
  "num_add exact_engine (Finite x) (Finite y) = Finite (x + y)"
  "num_sub exact_engine (Finite x) (Finite y) = Finite (x - y)"
  "num_mul exact_engine (Finite x) (Finite y) = Finite (x * y)"
  "y \<noteq> 0 \<Longrightarrow> num_div exact_engine (Finite x) (Finite y) = Finite (x / y)"
  "Math_sin exact_engine (Finite x) = Finite (sin x)"
  "Math_cos exact_engine (Finite x) = Finite (cos x)"
  "0 \<le> x \<Longrightarrow> Math_sqrt exact_engine (Finite x) = Finite (sqrt x)"
  "Math_atan2 exact_engine (Finite y) (Finite x) = Finite (atan2 y x)"
  "Math_PI exact_engine = Finite pi"
  "literal exact_engine x = Finite x"
  by (simp_all add: exact_engine_def exact1_def exact2_def)

lemma exact_toRadians: "toRadians exact_engine (Finite x) = Finite (radians x)"
  by (simp add: toRadians_def radians_def exact_ops)

lemma exact_distance:
  "calculateDistance exact_engine \<lparr>lat = Finite lat1, lng = Finite lng1\<rparr>
       \<lparr>lat = Finite lat2, lng = Finite lng2\<rparr>
     = Finite (6371 * (2 * atan2 (sqrt (haversine_sum lat1 lng1 lat2 lng2))
                                 (sqrt (1 - haversine_sum lat1 lng1 lat2 lng2))))"
proof -
  let ?A = "haversine_sum lat1 lng1 lat2 lng2"
  have a: "num_add exact_engine
             (num_mul exact_engine
                (Math_sin exact_engine (num_div exact_engine
                   (toRadians exact_engine (num_sub exact_engine (Finite lat2) (Finite lat1))) (Finite 2)))
                (Math_sin exact_engine (num_div exact_engine
                   (toRadians exact_engine (num_sub exact_engine (Finite lat2) (Finite lat1))) (Finite 2))))
             (num_mul exact_engine
                (num_mul exact_engine
                   (num_mul exact_engine
                      (Math_cos exact_engine (toRadians exact_engine (Finite lat1)))
                      (Math_cos exact_engine (toRadians exact_engine (Finite lat2))))
                   (Math_sin exact_engine (num_div exact_engine
                      (toRadians exact_engine (num_sub exact_engine (Finite lng2) (Finite lng1))) (Finite 2))))
                (Math_sin exact_engine (num_div exact_engine
                   (toRadians exact_engine (num_sub exact_engine (Finite lng2) (Finite lng1))) (Finite 2))))
           = Finite ?A"
    by (simp add: exact_ops exact_toRadians haversine_sum_def haversine_def mult.assoc)
  have r1: "Math_sqrt exact_engine (Finite ?A) = Finite (sqrt ?A)"
    using haversine_sum_in_range(1) by (rule exact_ops(7))
  have r2: "Math_sqrt exact_engine (num_sub exact_engine (Finite 1) (Finite ?A)) = Finite (sqrt (1 - ?A))"
    using haversine_sum_in_range(2)[of lat1 lng1 lat2 lng2] by (simp add: exact_ops)
  show ?thesis
    unfolding calculateDistance_def Let_def LocationCoordinates.simps a r1 r2
    by (simp add: exact_ops)
qed

text \<open>
  Under exact arithmetic, \<open>calculateDistance\<close> is the Haversine formula for the
  great-circle distance on a sphere of radius 6371 km.
\<close>

lemma atan2_is_arcsin:
  assumes "0 \<le> a" and "a \<le> 1"
  shows "atan2 (sqrt a) (sqrt (1 - a)) = arcsin (sqrt a)"
proof (cases "a = 1")
  case True
  then show ?thesis by (simp add: atan2_def)
next
  case False
  with assms have lt: "a < 1" by simp
  define t where "t = arcsin (sqrt a)"
  have r: "0 \<le> sqrt a" "sqrt a < 1"
    using assms lt by (simp_all add: real_sqrt_lt_1_iff)
  have "- 1 < sqrt a"
    using r(1) by linarith
  from arcsin_lt_bounded[OF this r(2)] have b: "- (pi / 2) < t" "t < pi / 2"
    by (simp_all add: t_def)
  have m: "- 1 \<le> sqrt a" "sqrt a \<le> 1"
    using r by linarith+
  have s: "sin t = sqrt a"
    unfolding t_def by (rule sin_arcsin[OF m])
  have "cos t = sqrt (1 - (sqrt a)\<^sup>2)"
    unfolding t_def by (rule cos_arcsin[OF m])
  then have c: "cos t = sqrt (1 - a)"
    using assms(1) by simp
  have pos: "0 < sqrt (1 - a)"
    using lt by simp
  have "atan2 (sqrt a) (sqrt (1 - a)) = arctan (sqrt a / sqrt (1 - a))"
    using pos by (simp add: atan2_def)
  also have "\<dots> = arctan (tan t)"
    by (simp add: tan_def s c)
  also have "\<dots> = t"
    using b by (rule arctan_tan)
  finally show ?thesis
    by (simp add: t_def)
qed

lemma exact_distance_is_great_circle:
  "calculateDistance exact_engine \<lparr>lat = Finite lat1, lng = Finite lng1\<rparr>
       \<lparr>lat = Finite lat2, lng = Finite lng2\<rparr>
     = Finite (great_circle_km lat1 lng1 lat2 lng2)"
  using atan2_is_arcsin[OF haversine_sum_in_range, of lat1 lng1 lat2 lng2]
  by (simp add: exact_distance great_circle_km_def)


subsection \<open>Distances to Chennai\<close>

lemma same_meridian:
  assumes "0 \<le> d" and "d < 180"
  shows "calculateDistance exact_engine \<lparr>lat = Finite x, lng = Finite l\<rparr>
           \<lparr>lat = Finite (x + d), lng = Finite l\<rparr>
         = Finite (6371 * radians d)"
proof -
  define h where "h = radians d / 2"
  have h: "0 \<le> h" "h < pi / 2"
    using assms pi_gt_zero by (simp_all add: h_def radians_def field_simps)
  have s: "0 \<le> sin h"
    using h pi_gt_zero by (intro sin_ge_zero) simp_all
  have "great_circle_km x l (x + d) l = 2 * 6371 * arcsin (sqrt (sin h * sin h))"
    by (simp add: great_circle_km_def haversine_sum_def haversine_def radians_def h_def)
  also have "sqrt (sin h * sin h) = sin h"
    using s by simp
  also have "arcsin (sin h) = h"
    using h by (intro arcsin_sin) simp_all
  finally show ?thesis
    by (simp add: exact_distance_is_great_circle h_def)
qed

lemma chennai_listed: "chennai \<in> set (getMajorIndianCities exact_engine)"
  by (simp add: getMajorIndianCities_def chennai_def exact_ops(10))

lemma distance_to_chennai:
  assumes "0 \<le> d" and "d < 180"
  shows "calculateDistance exact_engine (south_of_chennai d) (LocationInfo.coordinates chennai)
         = Finite (6371 * radians d)"
  using same_meridian[OF assms, of "13.0827 - d" "80.2707"]
  by (simp add: south_of_chennai_def chennai_def)

lemma band_bounds:
  "6371 * radians (1 / 10) > 5" "6371 * radians (1 / 10) \<le> 25"
  "6371 * radians (1 / 2) > 25" "6371 * radians (1 / 2) \<le> 100"
  "6371 * radians 2 > 100"
  using pi_ge_two pi_less_4 by (simp_all add: radians_def)

lemma compare_finite:
  "number_le (Finite x) (Finite y) \<longleftrightarrow> x \<le> y"
  "number_gt (Finite x) (Finite y) \<longleftrightarrow> x > y"
  by (simp_all add: number_le_def number_gt_def)

lemma chennai_bands:
  "number_le (calculateDistance exact_engine (south_of_chennai 0) (LocationInfo.coordinates chennai))
     (Finite 5)"
  "number_gt (calculateDistance exact_engine (south_of_chennai (1 / 10)) (LocationInfo.coordinates chennai))
     (Finite 5)"
  "number_le (calculateDistance exact_engine (south_of_chennai (1 / 10)) (LocationInfo.coordinates chennai))
     (Finite 25)"
  "number_gt (calculateDistance exact_engine (south_of_chennai (1 / 2)) (LocationInfo.coordinates chennai))
     (Finite 25)"
  "number_le (calculateDistance exact_engine (south_of_chennai (1 / 2)) (LocationInfo.coordinates chennai))
     (Finite 100)"
  "number_gt (calculateDistance exact_engine (south_of_chennai 2) (LocationInfo.coordinates chennai))
     (Finite 100)"
  using band_bounds by (simp_all add: distance_to_chennai compare_finite) (simp add: radians_def)





subsection \<open>The bands\<close>




section \<open>Properties of the alert service\<close>

lemma defineAlertZones_eq:
  "defineAlertZones m ep s
     = (if immediate (getAlertZones m ep) \<noteq> [] then [immediate_zone m ep s] else [])
       @ (if nearby (getAlertZones m ep) \<noteq> [] then [nearby_zone m ep s] else [])
       @ (if s = Critical \<and> regional (getAlertZones m ep) \<noteq> [] then [regional_zone m ep] else [])"
  by (simp add: defineAlertZones_def Let_def immediate_zone_def nearby_zone_def regional_zone_def)

text \<open>
  C3. In the zone list built for an alert of severity \<open>s\<close>, the immediate zone has
  severity \<open>s\<close>, the nearby zone has the severity one step down (critical to warning,
  warning to info, info stays info), and a regional zone is there only when \<open>s\<close> is
  critical, with severity info. Each zone is there when it has a city (and, for the
  regional zone, \<open>s\<close> is critical), at most once, in the order immediate, nearby,
  regional. This holds in the arithmetic of every engine.
\<close>

theorem zone_severities:
  assumes "z \<in> set (defineAlertZones m ep s)"
  shows "(AlertZone.type z = Immediate \<longrightarrow> AlertZone.severity z = s)
       \<and> (AlertZone.type z = Nearby \<longrightarrow> AlertZone.severity z = reduceSeverity s)
       \<and> (AlertZone.type z = Regional \<longrightarrow> s = Critical \<and> AlertZone.severity z = Info)
       \<and> reduceSeverity Critical = Warning
       \<and> reduceSeverity Warning = Info
       \<and> reduceSeverity Info = Info
       \<and> map AlertZone.type (defineAlertZones m ep s)
           = (if immediate (getAlertZones m ep) \<noteq> [] then [Immediate] else [])
             @ (if nearby (getAlertZones m ep) \<noteq> [] then [Nearby] else [])
             @ (if s = Critical \<and> regional (getAlertZones m ep) \<noteq> [] then [Regional] else [])"
  using assms
  by (auto simp: defineAlertZones_eq immediate_zone_def nearby_zone_def regional_zone_def
      split: if_splits)

theorem zone_severities_witness:
  "immediate_zone exact_engine (south_of_chennai 0) Warning
       \<in> set (defineAlertZones exact_engine (south_of_chennai 0) Warning)
   \<and> AlertZone.severity (immediate_zone exact_engine (south_of_chennai 0) Warning) = Warning
   \<and> nearby_zone exact_engine (south_of_chennai (1 / 10)) Critical
       \<in> set (defineAlertZones exact_engine (south_of_chennai (1 / 10)) Critical)
   \<and> AlertZone.severity (nearby_zone exact_engine (south_of_chennai (1 / 10)) Critical) = Warning
   \<and> regional_zone exact_engine (south_of_chennai (1 / 2))
       \<in> set (defineAlertZones exact_engine (south_of_chennai (1 / 2)) Critical)
   \<and> AlertZone.severity (regional_zone exact_engine (south_of_chennai (1 / 2))) = Info
   \<and> regional_zone exact_engine (south_of_chennai (1 / 2))
       \<notin> set (defineAlertZones exact_engine (south_of_chennai (1 / 2)) Warning)"
proof -
  have i: "immediate (getAlertZones exact_engine (south_of_chennai 0)) \<noteq> []"
    and n: "nearby (getAlertZones exact_engine (south_of_chennai (1 / 10))) \<noteq> []"
    and r: "regional (getAlertZones exact_engine (south_of_chennai (1 / 2))) \<noteq> []"
    using chennai_listed chennai_bands by (auto simp: zones_are_filters filter_empty_conv)
  have zi: "immediate_zone exact_engine (south_of_chennai 0) Warning
       \<in> set (defineAlertZones exact_engine (south_of_chennai 0) Warning)"
    using i by (simp add: defineAlertZones_eq)
  have zn: "nearby_zone exact_engine (south_of_chennai (1 / 10)) Critical
       \<in> set (defineAlertZones exact_engine (south_of_chennai (1 / 10)) Critical)"
    using n by (simp add: defineAlertZones_eq)
  have zr: "regional_zone exact_engine (south_of_chennai (1 / 2))
       \<in> set (defineAlertZones exact_engine (south_of_chennai (1 / 2)) Critical)"
    using r by (simp add: defineAlertZones_eq)
  have no: "regional_zone exact_engine (south_of_chennai (1 / 2))
       \<notin> set (defineAlertZones exact_engine (south_of_chennai (1 / 2)) Warning)"
    by (simp add: defineAlertZones_eq immediate_zone_def nearby_zone_def regional_zone_def)
  from zone_severities[OF zi] zone_severities[OF zn] zone_severities[OF zr] zi zn zr no
  show ?thesis
    by (simp add: immediate_zone_def nearby_zone_def regional_zone_def)
qed

text \<open>
  C4. The recipients submitted for a zone are the subscribers that satisfy the four
  conditions, each in its submitted form and in the directory's order: the filter of
  \<open>createTargetedAlerts\<close> decides the first three conditions, the filter of
  \<open>sendLocationBasedNotifications\<close> the fourth. The names are compared in the lower case
  that the engine's \<open>toLowerCase\<close> gives them, whatever its case mapping is; so a name
  matches itself and every name with the same lower-case form, and the match is
  symmetric.
\<close>

theorem recipients_are_the_included_subscribers:
  "formattedRecipients (zoneSubscribers m z t subscribers)
     = map formatRecipient (filter (\<lambda>s. include_subscriber m s z t) subscribers)
   \<and> (isInZone m z s \<longleftrightarrow> (\<exists>n\<in>set (cities z). names_match m (Subscriber.city s) n))
   \<and> (names_match m a b \<longleftrightarrow> names_match m b a)
   \<and> (toLowerCase m a = toLowerCase m b \<longrightarrow> names_match m a b)"
proof -
  have zone: "isInZone m z s \<longleftrightarrow> (\<exists>n\<in>set (cities z). names_match m (Subscriber.city s) n)" for s
    by (auto simp: isInZone_def names_match_def string_includes_def list_ex_iff)
  have channel: "truthy (recipient.email (formatRecipient s)) \<or> truthy (recipient.phone (formatRecipient s))
      \<longleftrightarrow> (emailAlerts (preferences s) \<and> truthy (Subscriber.email s))
          \<or> (smsAlerts (preferences s) \<and> truthy (Subscriber.phone s))" for s
    by (simp add: formatRecipient_def truthy_def)
  have "filter (\<lambda>r. truthy (recipient.email r) \<or> truthy (recipient.phone r))
          (map formatRecipient (zoneSubscribers m z t subscribers))
        = map formatRecipient
            (filter (\<lambda>s. truthy (recipient.email (formatRecipient s))
                          \<or> truthy (recipient.phone (formatRecipient s)))
               (zoneSubscribers m z t subscribers))"
    by (simp add: filter_map comp_def)
  also have "filter (\<lambda>s. truthy (recipient.email (formatRecipient s))
                          \<or> truthy (recipient.phone (formatRecipient s)))
               (zoneSubscribers m z t subscribers)
             = filter (\<lambda>s. include_subscriber m s z t) subscribers"
    unfolding zoneSubscribers_def filter_filter
    by (rule filter_cong[OF refl])
      (auto simp: include_subscriber_def zone channel Let_def)
  finally have main: "formattedRecipients (zoneSubscribers m z t subscribers)
     = map formatRecipient (filter (\<lambda>s. include_subscriber m s z t) subscribers)"
    by (simp add: formattedRecipients_def)
  have sym: "names_match m a b \<longleftrightarrow> names_match m b a"
    by (auto simp: names_match_def)
  have same: "toLowerCase m a = toLowerCase m b \<longrightarrow> names_match m a b"
    by (simp add: names_match_def)
  from main zone[of s] sym same show ?thesis
    by blast
qed

theorem recipients_are_the_included_subscribers_witness:
  "map (\<lambda>s. include_subscriber exact_engine s chennai_warning_zone Flood) directory
     = [True, False, False, True, False]
   \<and> formattedRecipients (zoneSubscribers exact_engine chennai_warning_zone Flood directory)
     = [\<lparr>recipient.phone = None, recipient.email = Some ''a@example.org'',
         recipient.language = Text ''en''\<rparr>,
        \<lparr>recipient.phone = Some ''+914'', recipient.email = None,
         recipient.language = Text ''en''\<rparr>]
   \<and> toLowerCase exact_engine ''Chennai'' = toLowerCase exact_engine ''chennai''
   \<and> names_match exact_engine ''Chennai'' ''chennai''
   \<and> names_match exact_engine ''Greater Chennai'' ''Chennai''
   \<and> \<not> names_match exact_engine ''Pune'' ''Chennai''"
proof -
  note claim = recipients_are_the_included_subscribers[of exact_engine chennai_warning_zone Flood
      directory _ "''Chennai''" "''chennai''"]
  have inc: "map (\<lambda>s. include_subscriber exact_engine s chennai_warning_zone Flood) directory
     = [True, False, False, True, False]"
    by (simp add: directory_def subscriber_in_def chennai_warning_zone_def include_subscriber_def
        names_match_def exact_engine_def ascii_toLowerCase_def truthy_def sublist_Cons_right)
  then have "filter (\<lambda>s. include_subscriber exact_engine s chennai_warning_zone Flood) directory
     = [subscriber_in ''chennai'' (Some ''a@example.org'') None True False [''warning''],
        subscriber_in ''Greater Chennai'' (Some ''d@example.org'') (Some ''+914'') False True [''warning'']]"
    by (simp add: directory_def)
  with claim have sent: "formattedRecipients (zoneSubscribers exact_engine chennai_warning_zone Flood directory)
     = [\<lparr>recipient.phone = None, recipient.email = Some ''a@example.org'',
         recipient.language = Text ''en''\<rparr>,
        \<lparr>recipient.phone = Some ''+914'', recipient.email = None,
         recipient.language = Text ''en''\<rparr>]"
    by (simp add: formatRecipient_def subscriber_in_def)
  have low: "toLowerCase exact_engine ''Chennai'' = toLowerCase exact_engine ''chennai''"
    by (simp add: exact_engine_def ascii_toLowerCase_def)
  with claim have same: "names_match exact_engine ''Chennai'' ''chennai''"
    by blast
  have other: "names_match exact_engine ''Greater Chennai'' ''Chennai''"
    "\<not> names_match exact_engine ''Pune'' ''Chennai''"
    by (simp_all add: names_match_def exact_engine_def ascii_toLowerCase_def sublist_Cons_right)
  from inc sent low same other show ?thesis
    by blast
qed

section \<open>Properties of the localized content\<close>

lemma localized_entry:
  assumes "languages a = Some entries" and "entries key = Some l"
  shows "localized a key = l"
  using assms by (simp add: localized_def get_property_def)

lemma localized_fallback:
  assumes "key \<notin> set object_prototype_keys"
    and "languages a = None \<or> (\<exists>entries. languages a = Some entries \<and> entries key = None)"
  shows "localized a key
           = \<lparr>localized_text.title = Text (alert.title a),
              localized_text.description = Text (alert.description a)\<rparr>"
  using assms by (auto simp: localized_def get_property_def)

lemma builders_print_localized:
  "\<exists>before after middle.
     createEnhancedSMSMessage rt a lang
       = before @ render (localized_text.title (localized a (render lang))) @ middle
         @ render (localized_text.description (localized a (render lang))) @ after"
  "createEnhancedEmailMessage rt a lang = Inr msg \<Longrightarrow>
   subject msg
     = (if alert.zone a = Text ''immediate'' then glyph_siren @ '' IMMEDIATE''
        else if alert.zone a = Text ''nearby'' then glyph_warning @ '' NEARBY''
        else glyph_loudspeaker @ '' REGIONAL'')
       @ '' ALERT: '' @ render (localized_text.title (localized a (render lang)))"
proof -
  show "\<exists>before after middle.
     createEnhancedSMSMessage rt a lang
       = before @ render (localized_text.title (localized a (render lang))) @ middle
         @ render (localized_text.description (localized a (render lang))) @ after"
    unfolding createEnhancedSMSMessage_def Let_def
    by (metis append.assoc)
  show "createEnhancedEmailMessage rt a lang = Inr msg \<Longrightarrow>
   subject msg
     = (if alert.zone a = Text ''immediate'' then glyph_siren @ '' IMMEDIATE''
        else if alert.zone a = Text ''nearby'' then glyph_warning @ '' NEARBY''
        else glyph_loudspeaker @ '' REGIONAL'')
       @ '' ALERT: '' @ render (localized_text.title (localized a (render lang)))"
    by (auto simp: createEnhancedEmailMessage_def Let_def split: sum.splits if_splits)
qed

text \<open>
  C10. The builders are to use the entry of the requested language when the alert's
  languages map has one, and the alert's base title and description when it has none.
  They do so for every language that names no member inherited from
  \<open>Object.prototype\<close> (\<open>localized_entry\<close>, \<open>localized_fallback\<close>,
  \<open>builders_print_localized\<close>). At a language that names such a member they do not: the
  alert below has a Hindi entry only, the requested language is \<open>constructor\<close>, and both
  builders print \<open>undefined\<close> where the base title \<open>Flood warning\<close> and the base
  description \<open>River level rising\<close> belong.
\<close>

theorem inherited_name_is_not_a_fallback:
  "(the (languages hindi_alert)) ''constructor'' = None
   \<and> localized hindi_alert ''constructor''
       = \<lparr>localized_text.title = Undefined, localized_text.description = Undefined\<rparr>
   \<and> map_sum id subject (createEnhancedEmailMessage provider_accepts hindi_alert (Text ''constructor''))
       = Inr (glyph_loudspeaker @ '' REGIONAL ALERT: undefined'')
   \<and> createEnhancedSMSMessage provider_accepts hindi_alert (Text ''constructor'')
       = glyph_siren @ '' EMERGENCY ALERT\<newline>DIRECT ALERT\<newline>\<newline>''
         @ glyph_wave @ '' undefined\<newline>\<newline>''
         @ glyph_pin @ '' Location: Chennai\<newline>''
         @ glyph_clock @ '' Time: 2025-01-01T00:00:00Z\<newline>''
         @ glyph_satellite @ '' Source: IMD\<newline>\<newline>undefined\<newline>\<newline>''
         @ glyph_loudspeaker @ '' STAY INFORMED\<newline>\<newline>Reply STOP to unsubscribe.''
   \<and> localized hindi_alert ''ta''
       = \<lparr>localized_text.title = Text ''Flood warning'',
          localized_text.description = Text ''River level rising''\<rparr>
   \<and> localized hindi_alert ''hi''
       = \<lparr>localized_text.title = Text ''Baadh ki chetavani'',
          localized_text.description = Text ''Nadi ka star badh raha hai''\<rparr>"
  by (simp add: hindi_alert_def demo_alert_def provider_accepts_def localized_def get_property_def
      object_prototype_keys_def createEnhancedEmailMessage_def createEnhancedSMSMessage_def
      call_toUpperCase_def print_property_def typeEmoji_def Let_def)

end
